theory Spec2Isabelle
  imports Main "HOL-Library.Product_Lexorder" "HOL-Library.Sublist" "HOL-Library.AList"
begin

section \<open>Python values shared by both sheets\<close>

text \<open>
  Exceptions are values. \<open>Failure msg\<close> stands for any \<open>Exception\<close> raised by an
  external collaborator (the hosted agent, the mail transport, the file system) whose
  \<open>str(e)\<close> is \<open>msg\<close>; the other constructors are the exceptions the interpreter
  itself raises in the modelled code, carrying the offending name or key.
  Every handler of the source is \<open>except Exception\<close>, and all of these are subclasses
  of \<open>Exception\<close>.
\<close>

datatype py_exception =
    Failure string
  | KeyError string
  | UnboundLocalError string
  | AttributeError string
  | TypeError string
  | ValueError string

text \<open>
  What a handler does to the outside, in the order it does it. \<open>Submit prompt model\<close> is
  one submission to the hosted agent; \<open>St_error prefix e\<close> is \<open>st.error(f"{prefix}{e}")\<close>;
  \<open>St_error_text msg\<close> is \<open>st.error(msg)\<close> with a fixed text;
  \<open>St_text_area\<close> and \<open>St_download_button\<close> carry the content shown (and the file name),
  \<open>St_audio\<close> the file played; \<open>Sleep n\<close> is \<open>time.sleep(n)\<close>.
\<close>

datatype event =
    Submit string string
  | St_info string
  | St_warning string
  | St_error string py_exception
  | St_text_area string
  | St_download_button string string
  | Sleep nat
  | St_success string
  | St_error_text string
  | St_audio string

definition nl :: string where
  "nl = [CHR 0x0A]"

section \<open>Sheet 1: the insight catalog and the query agent adapter\<close>

text \<open>
  \<open>insight_options\<close> is a dict literal; iteration follows insertion order, so it is an
  association list.
\<close>

definition insight_options :: "(string \<times> string) list" where
  "insight_options =
    [(''1. Employees with 2 or more completions'',
      ''Number of employees who have completed 2 or more courses.''),
     (''2. Employees with 1 completion'',
      ''Number of employees who have completed exactly 1 course.''),
     (''3. Top 3 organizations by completion'',
      ''Top 3 organization units with the highest number of completions.''),
     (''4. Top 3 orgs in each country by completion'',
      ''Top 3 organization units by completions in each country.''),
     (''5. Bottom 3 organizations by completion'',
      ''Bottom 3 organization units with the least completions.''),
     (''6. Bottom 3 orgs where registration is high but completion is low'',
      ''Bottom 3 orgs where registration is high but completion is low.''),
     (''7. Top 3 platforms by registration and completion'',
      ''Top 3 platforms with the highest registrations and completions.''),
     (''8. Bottom 3 platforms where registration is high but completion is low'',
      ''Bottom 3 platforms where registration is high but completion is low.''),
     (''9. Top 3 employee roles by completions'',
      ''Top 3 employee roles based on number of completions.''),
     (''10. Split of completion by course level'',
      ''Split of completions across different course levels.''),
     (''11. Course level with high registration but low completion'',
      ''Which course levels have high registration but low completion?'')]"

text \<open>
  The hosted agent is outside the repository: it is a parameter. Its answer may depend
  on how many submissions came before (the same prompt can fail once and then succeed),
  so it takes the number of the submission, the prompt and the model name, and returns
  the answer (\<open>Inr\<close>) or raises (\<open>Inl msg\<close>, where \<open>msg\<close> is \<open>str(e)\<close> of the exception).
\<close>

type_synonym agent = "nat \<Rightarrow> string \<Rightarrow> string \<Rightarrow> string + string"

text \<open>
  The session's \<open>st.session_state\<close>: \<open>None\<close> is an absent key for the two Sheet 1 keys.
  Sheet 2 initialises \<open>report_data\<close> to the empty dict and \<open>final_pdf\<close> to \<open>None\<close>
  before any handler of it runs.
\<close>

record report_entry =
  entry_insight :: string
  entry_chart_type :: string
  entry_chart_path :: "string option"

record session_state =
  last_insight :: "string option"
  all_insights :: "string option"
  report_data :: "(string \<times> report_entry) list"
  final_pdf :: "string option"

text \<open>
  The world a handler runs in: how many prompts were submitted so far, the events so
  far, and the session state.
\<close>

record world =
  calls :: nat
  events :: "event list"
  state :: session_state

definition emit :: "event \<Rightarrow> world \<Rightarrow> world" where
  "emit e w = w\<lparr>events := events w @ [e]\<rparr>"

text \<open>\<open>run_agent_on_prompt\<close>: one submission, the answer or the exception handed back as it is.\<close>

definition run_agent_on_prompt ::
  "agent \<Rightarrow> string \<Rightarrow> string \<Rightarrow> world \<Rightarrow> (string + string) \<times> world" where
  "run_agent_on_prompt ag prompt_text model w =
     (ag (calls w) prompt_text model,
      w\<lparr>calls := Suc (calls w), events := events w @ [Submit prompt_text model]\<rparr>)"

definition framing :: string where
  "framing = ''Analyze the dataset and return this insight:'' @ nl @ nl"

text \<open>The placeholder of the batch loops; the first six bytes are the UTF-8 warning sign.\<close>

definition skipped :: "string \<Rightarrow> string" where
  "skipped msg =
     ''['' @ [CHR 0xE2, CHR 0x9A, CHR 0xA0, CHR 0xEF, CHR 0xB8, CHR 0x8F]
       @ '' Skipped due to error: '' @ msg @ '']''"

definition entry :: "string \<Rightarrow> string \<Rightarrow> string" where
  "entry label result = nl @ nl @ ''### '' @ label @ nl @ result @ nl"

text \<open>
  The loop of the Generate All handler (and of \<open>daily_auto_email\<close>, which is the same
  loop): the inner \<open>try\<close> turns a failed query into the placeholder, and the entry is
  appended in both cases.
\<close>

fun batch_loop :: "agent \<Rightarrow> (string \<times> string) list \<Rightarrow> string \<Rightarrow> world \<Rightarrow> string \<times> world" where
  "batch_loop ag [] full_summary w = (full_summary, w)"
| "batch_loop ag ((label, text) # rest) full_summary w =
     (let prompt = framing @ text;
          (r, w') = run_agent_on_prompt ag prompt ''gpt-3.5-turbo'' w;
          result = (case r of Inr answer \<Rightarrow> answer | Inl msg \<Rightarrow> skipped msg)
      in batch_loop ag rest (full_summary @ entry label result) w')"

text \<open>
  The Generate All handler. Nothing inside the outer \<open>try\<close> after the loop can fail in
  the model (the widgets are external), so the outer handler is never entered.
\<close>

definition generate_all :: "agent \<Rightarrow> world \<Rightarrow> world" where
  "generate_all ag w =
     (let (full_summary, w1) = batch_loop ag insight_options [] w;
          w2 = emit (St_text_area full_summary) w1;
          w3 = emit (St_download_button full_summary ''All_Insights.txt'') w2
      in w3\<lparr>state := (state w3)\<lparr>all_insights := Some full_summary\<rparr>\<rparr>)"

text \<open>
  The first loop of \<open>daily_auto_email\<close>, which builds the summary that is then written,
  narrated and mailed.
\<close>

definition daily_auto_email_summary :: "agent \<Rightarrow> world \<Rightarrow> string \<times> world" where
  "daily_auto_email_summary ag w = batch_loop ag insight_options [] w"

text \<open>
  The specification's reading of the batch: one entry per catalog item, in catalog
  order; the \<open>i\<close>-th item is answered by the \<open>i\<close>-th submission of the run.
\<close>

definition item_result :: "agent \<Rightarrow> nat \<Rightarrow> string \<Rightarrow> string" where
  "item_result ag k text =
     (case ag k (framing @ text) ''gpt-3.5-turbo'' of
        Inr answer \<Rightarrow> answer
      | Inl msg \<Rightarrow> skipped msg)"

definition batch_entries :: "agent \<Rightarrow> nat \<Rightarrow> (string \<times> string) list \<Rightarrow> (string \<times> string) list" where
  "batch_entries ag k catalog =
     map (\<lambda>i. (fst (catalog ! i), item_result ag (k + i) (snd (catalog ! i))))
         [0..<length catalog]"

definition render_entries :: "(string \<times> string) list \<Rightarrow> string" where
  "render_entries es = concat (map (\<lambda>(label, result). entry label result) es)"


subsection \<open>The single-insight and free-question handlers\<close>

text \<open>
  The Generate Insight handler. \<open>insight_options[selected_insight]\<close> raises \<open>KeyError\<close>
  on a label that is not a key; like an agent failure it is caught by the handler's
  \<open>except Exception\<close>, which shows the error and writes nothing to the session.
\<close>

definition generate_insight :: "agent \<Rightarrow> string \<Rightarrow> world \<Rightarrow> world" where
  "generate_insight ag selected_insight w =
     (let w0 = emit (St_info ''Generating insight with GPT-4...'') w
      in case map_of insight_options selected_insight of
           None \<Rightarrow> emit (St_error ''Error: '' (KeyError selected_insight)) w0
         | Some text \<Rightarrow>
             (case run_agent_on_prompt ag (framing @ text) ''gpt-4'' w0 of
                (Inl msg, w1) \<Rightarrow> emit (St_error ''Error: '' (Failure msg)) w1
              | (Inr insight_result, w1) \<Rightarrow>
                  (let w2 = emit (St_text_area insight_result) w1;
                       w3 = emit (St_download_button insight_result ''Insight.txt'') w2
                   in w3\<lparr>state := (state w3)\<lparr>last_insight := Some insight_result\<rparr>\<rparr>)))"

text \<open>
  The inner \<open>try\<close> of the Ask AI handler: the only place of the repository that
  resubmits. \<open>"Rate limit" in str(e)\<close> is a substring test.
\<close>

definition ask_with_retry :: "agent \<Rightarrow> string \<Rightarrow> world \<Rightarrow> (string + string) \<times> world" where
  "ask_with_retry ag summary_prompt w =
     (case run_agent_on_prompt ag summary_prompt ''gpt-4'' w of
        (Inr result, w1) \<Rightarrow> (Inr result, w1)
      | (Inl msg, w1) \<Rightarrow>
          if sublist ''Rate limit'' msg
          then (let w2 = emit (St_warning ''Rate limit hit. Waiting 20 seconds...'') w1;
                    w3 = emit (Sleep 20) w2
                in run_agent_on_prompt ag summary_prompt ''gpt-4'' w3)
          else (Inl msg, w1))"

definition analyst_prompt :: "string \<Rightarrow> string" where
  "analyst_prompt user_q =
     nl @ ''You are an AI analyst. Based on the dataset, answer the following question in 5 lines maximum:''
        @ nl @ nl @ user_q @ nl"

definition ask_ai :: "agent \<Rightarrow> string \<Rightarrow> world \<Rightarrow> world" where
  "ask_ai ag user_q w =
     (if user_q \<noteq> []
      then (let w0 = emit (St_info ''Using GPT-4...'') w
            in case ask_with_retry ag (analyst_prompt user_q) w0 of
                 (Inl msg, w1) \<Rightarrow> emit (St_error ''Smart Q&A Error: '' (Failure msg)) w1
               | (Inr result, w1) \<Rightarrow>
                   emit (St_download_button result ''QnA_Insight.txt'')
                     (emit (St_text_area result) w1))
      else emit (St_warning ''Please enter a question.'') w)"

subsection \<open>The podcast handlers\<close>

text \<open>
  Speech synthesis, the file system, the PDF writer and the clock are external: each is
  a field of \<open>services\<close>, answering \<open>None\<close> when the step succeeds and \<open>Some e\<close> when it
  raises \<open>e\<close>. \<open>text_to_speech sv text filename\<close> is \<open>gTTS(text)\<close> and \<open>save(filename)\<close>;
  \<open>read_audio\<close> is \<open>open(path, "rb").read()\<close>; \<open>write_text\<close> is the \<open>with open(path, "w")\<close>
  block; \<open>today\<close> is \<open>datetime.now().strftime('%Y-%m-%d')\<close>.
\<close>

record services =
  text_to_speech :: "string \<Rightarrow> string \<Rightarrow> py_exception option"
  read_audio :: "string \<Rightarrow> py_exception option"
  write_text :: "string \<Rightarrow> string \<Rightarrow> py_exception option"
  generate_pdf_from_text :: "string \<Rightarrow> string \<Rightarrow> py_exception option"
  today :: string

text \<open>
  What follows the agent's answer in both podcast handlers: synthesis, reading the file
  back, playing it, the success message whose first bytes are the given emoji. The
  handler's \<open>except Exception\<close> shows any failure as a podcast error.
\<close>

definition narrate :: "services \<Rightarrow> string \<Rightarrow> string \<Rightarrow> string \<Rightarrow> world \<Rightarrow> world" where
  "narrate sv podcast_text filename emoji w =
     (case text_to_speech sv podcast_text filename of
        Some e \<Rightarrow> emit (St_error ''Podcast error: '' e) w
      | None \<Rightarrow>
          (case read_audio sv filename of
             Some e \<Rightarrow> emit (St_error ''Podcast error: '' e) w
           | None \<Rightarrow> emit (St_success (emoji @ '' Podcast ready.'')) (emit (St_audio filename) w)))"

definition podcast_prompt_single :: "string \<Rightarrow> string" where
  "podcast_prompt_single insight_text =
     ''Convert this into a 60-second podcast summary:'' @ nl @ nl @ insight_text"

definition podcast_prompt_all :: "string \<Rightarrow> string" where
  "podcast_prompt_all summary =
     ''Summarize all these insights into a 2-minute podcast:'' @ nl @ nl @ summary"

text \<open>
  The Generate Podcast handler; its button exists only when \<open>last_insight\<close> is in the
  session. The emoji is the headphone sign.
\<close>

definition generate_podcast :: "agent \<Rightarrow> services \<Rightarrow> world \<Rightarrow> world" where
  "generate_podcast ag sv w =
     (case last_insight (state w) of
        None \<Rightarrow> w
      | Some insight_text \<Rightarrow>
          (case run_agent_on_prompt ag (podcast_prompt_single insight_text) ''gpt-4'' w of
             (Inl msg, w1) \<Rightarrow> emit (St_error ''Podcast error: '' (Failure msg)) w1
           | (Inr podcast_text, w1) \<Rightarrow>
               narrate sv podcast_text ''podcast_individual.mp3''
                 [CHR 0xF0, CHR 0x9F, CHR 0x8E, CHR 0xA7] w1))"

text \<open>The Generate Full Podcast handler, on \<open>all_insights\<close>; the emoji is the check mark.\<close>

definition generate_full_podcast :: "agent \<Rightarrow> services \<Rightarrow> world \<Rightarrow> world" where
  "generate_full_podcast ag sv w =
     (case all_insights (state w) of
        None \<Rightarrow> w
      | Some summary \<Rightarrow>
          (case run_agent_on_prompt ag (podcast_prompt_all summary) ''gpt-4'' w of
             (Inl msg, w1) \<Rightarrow> emit (St_error ''Podcast error: '' (Failure msg)) w1
           | (Inr podcast_text, w1) \<Rightarrow>
               narrate sv podcast_text ''full_podcast.mp3'' [CHR 0xE2, CHR 0x9C, CHR 0x85] w1))"

section \<open>Sheet 2: the guided dashboard\<close>

subsection \<open>Generate Insights and Charts\<close>

definition gpt_suggest_insights :: "agent \<Rightarrow> string \<Rightarrow> world \<Rightarrow> (string + string) \<times> world" where
  "gpt_suggest_insights ag prompt_text w =
     (ag (calls w) prompt_text ''gpt-3.5-turbo'',
      w\<lparr>calls := Suc (calls w), events := events w @ [Submit prompt_text ''gpt-3.5-turbo'']\<rparr>)"

definition metrics :: "string list" where
  "metrics =
    [''Currently Enrolled'', ''Number of completions'', ''Completion variance to previous month'',
     ''Number of employees registered vs completed (monthly trend)'',
     ''Top 5 courses by completion'', ''Bottom 5 courses by completion'',
     ''Completion by Platform'', ''Completion by Employee Role'', ''Completion by Organization'']"

definition explain_prompt :: "string \<Rightarrow> string \<Rightarrow> string" where
  "explain_prompt metric custom_text =
     ''Explain: '' @ metric @ ''. Context: '' @ custom_text @ ''. Keep it concise (5 lines).''"

text \<open>
  The loop of the handler. There is no \<open>try\<close> around the query: an exception of the
  agent leaves the loop and the handler (\<open>Inl\<close>), with the session as written so far.
\<close>

fun suggest_loop :: "agent \<Rightarrow> string \<Rightarrow> string list \<Rightarrow> world \<Rightarrow> (string + unit) \<times> world" where
  "suggest_loop ag custom_text [] w = (Inr (), w)"
| "suggest_loop ag custom_text (metric # rest) w =
     (case gpt_suggest_insights ag (explain_prompt metric custom_text) w of
        (Inl msg, w1) \<Rightarrow> (Inl msg, w1)
      | (Inr insight, w1) \<Rightarrow>
          suggest_loop ag custom_text rest
            (w1\<lparr>state := (state w1)\<lparr>report_data :=
                 AList.update metric
                   \<lparr>entry_insight = insight, entry_chart_type = ''Bar'', entry_chart_path = None\<rparr>
                   (report_data (state w1))\<rparr>\<rparr>))"

definition generate_insights_and_charts ::
  "agent \<Rightarrow> string list \<Rightarrow> string \<Rightarrow> world \<Rightarrow> (string + unit) \<times> world" where
  "generate_insights_and_charts ag selected_metrics custom_text w =
     (if selected_metrics = []
      then (Inr (), emit (St_warning ''Please select metrics or switch to AI mode.'') w)
      else suggest_loop ag custom_text selected_metrics
             (w\<lparr>state := (state w)\<lparr>report_data := []\<rparr>\<rparr>))"


subsection \<open>The table and the pandas operations used on it\<close>

text \<open>
  A row of the spreadsheet, with the six columns \<open>render_chart\<close> reads. A missing cell
  (\<open>NaN\<close>, or \<open>NaT\<close> after \<open>pd.to_datetime(..., errors="coerce")\<close>) is \<open>None\<close>. Only the
  year and the month of a timestamp are read (\<open>.dt.month\<close>, \<open>.dt.to_period("M")\<close>).
\<close>

record timestamp =
  ts_year :: int
  ts_month :: nat
  ts_day :: nat

record course_record =
  platform :: "string option"
  employee_role :: "string option"
  main_organization_unit :: "string option"
  course_name :: "string option"
  course_completion_date :: "timestamp option"
  registration_date :: "timestamp option"

type_synonym dataframe = "course_record list"

text \<open>
  A pandas Series is the list of its (index, value) pairs, in order. The library is not
  part of the repository; the operations are modelled from its documented behaviour:
  \<^item> \<open>value_counts()\<close> drops missing values, counts each distinct value and orders by
    count, largest first (values of equal count stay in order of first appearance);
  \<^item> \<open>sort_index()\<close> orders by index;
  \<^item> \<open>nlargest(n)\<close> and \<open>nsmallest(n)\<close> keep the first \<open>n\<close> entries in descending
    (ascending) order of value, earlier entries first among equal values;
  \<^item> \<open>diff()\<close> subtracts the previous entry's value and is missing at the first entry;
  \<^item> \<open>fillna(d)\<close> replaces a missing value by \<open>d\<close>.
  Counts are integers; \<open>diff\<close> turns them into floats in pandas, which represent these
  integers exactly, so values are \<open>int\<close> here.
\<close>

fun dropna :: "'a option list \<Rightarrow> 'a list" where
  "dropna [] = []"
| "dropna (None # xs) = dropna xs"
| "dropna (Some x # xs) = x # dropna xs"

fun unique :: "'a list \<Rightarrow> 'a list" where
  "unique [] = []"
| "unique (x # xs) = x # unique (filter (\<lambda>y. y \<noteq> x) xs)"

definition value_counts :: "'a option list \<Rightarrow> ('a \<times> nat) list" where
  "value_counts col =
     (let vals = dropna col
      in sort_key (\<lambda>(v, c). - int c) (map (\<lambda>v. (v, count_list vals v)) (unique vals)))"

definition sort_index :: "('i::linorder \<times> 'v) list \<Rightarrow> ('i \<times> 'v) list" where
  "sort_index s = sort_key fst s"

definition nlargest :: "nat \<Rightarrow> ('i \<times> nat) list \<Rightarrow> ('i \<times> nat) list" where
  "nlargest n s = take n (sort_key (\<lambda>(i, v). - int v) s)"

definition nsmallest :: "nat \<Rightarrow> ('i \<times> nat) list \<Rightarrow> ('i \<times> nat) list" where
  "nsmallest n s = take n (sort_key snd s)"

fun diff_values :: "int list \<Rightarrow> int option list" where
  "diff_values [] = []"
| "diff_values (x # xs) = None # map2 (\<lambda>cur prev. Some (cur - prev)) xs (x # xs)"

definition diff :: "('i \<times> int) list \<Rightarrow> ('i \<times> int option) list" where
  "diff s = zip (map fst s) (diff_values (map snd s))"

definition fillna :: "int \<Rightarrow> ('i \<times> int option) list \<Rightarrow> ('i \<times> int) list" where
  "fillna d s = map (\<lambda>(i, v). (i, case v of None \<Rightarrow> d | Some x \<Rightarrow> x)) s"

definition to_period_M :: "timestamp \<Rightarrow> int \<times> nat" where
  "to_period_M t = (ts_year t, ts_month t)"

text \<open>\<open>col.dt.to_period("M").value_counts().sort_index()\<close>, used three times.\<close>

definition period_counts :: "timestamp option list \<Rightarrow> ((int \<times> nat) \<times> nat) list" where
  "period_counts col = sort_index (value_counts (map (map_option to_period_M) col))"

subsection \<open>The aggregates of \<open>render_chart\<close>\<close>

definition top5_courses :: "dataframe \<Rightarrow> (string \<times> nat) list" where
  "top5_courses df = nlargest 5 (value_counts (map course_name df))"

definition bottom5_courses :: "dataframe \<Rightarrow> (string \<times> nat) list" where
  "bottom5_courses df = nsmallest 5 (value_counts (map course_name df))"

definition currently_enrolled :: "dataframe \<Rightarrow> (string \<times> nat) list" where
  "currently_enrolled df =
     nlargest 5 (value_counts (map course_name
        (filter (\<lambda>r. course_completion_date r = None) df)))"

definition number_of_completions :: "dataframe \<Rightarrow> (nat \<times> nat) list" where
  "number_of_completions df =
     sort_index (value_counts (map (\<lambda>r. map_option ts_month (course_completion_date r)) df))"

definition completion_variance :: "dataframe \<Rightarrow> ((int \<times> nat) \<times> int) list" where
  "completion_variance df =
     (let month_counts = period_counts (map course_completion_date df)
      in fillna 0 (diff (map (\<lambda>(p, c). (p, int c)) month_counts)))"

text \<open>
  The index of a series is a name, a month number or a month period (shown as text by
  \<open>astype(str)\<close> in the dual plot); one type of series carries all three.
\<close>

datatype label = Name string | Month_no nat | Month_period int nat

type_synonym series = "(label \<times> int) list"

definition named :: "(string \<times> nat) list \<Rightarrow> series" where
  "named s = map (\<lambda>(v, c). (Name v, int c)) s"

definition by_month_no :: "(nat \<times> nat) list \<Rightarrow> series" where
  "by_month_no s = map (\<lambda>(m, c). (Month_no m, int c)) s"

definition by_period :: "((int \<times> nat) \<times> int) list \<Rightarrow> series" where
  "by_period s = map (\<lambda>((y, m), c). (Month_period y m, c)) s"

text \<open>
  The calls made on the axes. The drawing libraries are external: whether a call raises
  (a bar chart of an empty series, a pie with negative values, a table without rows) is
  decided by them, so it is a parameter, the \<open>plotter\<close>, which answers \<open>None\<close> when the
  call draws and \<open>Some e\<close> when it raises \<open>e\<close>. \<open>ax.axis("off")\<close> only switches the axes
  off and always succeeds.
\<close>

datatype draw =
    Data_plot string series
  | Data_plot_pie series
  | Axis_off
  | Ax_table string series
  | Ax_plot "label list" "int list" string
  | Ax_legend

type_synonym plotter = "draw \<Rightarrow> py_exception option"

text \<open>
  The first \<open>if\<close>/\<open>elif\<close> chain of \<open>render_chart\<close> either reaches the branch of the dual
  plot, with its two series (\<open>Dual reg completed\<close>), or falls through with \<open>data\<close> bound to a
  series, or, when no branch matched, not bound at all (\<open>Continue None\<close>).
\<close>

datatype chain = Dual series series | Continue "series option"

definition metric_chain :: "dataframe \<Rightarrow> string \<Rightarrow> chain" where
  "metric_chain df metric =
     (if metric = ''Completion by Platform''
        then Continue (Some (named (value_counts (map platform df))))
      else if metric = ''Completion by Employee Role''
        then Continue (Some (named (value_counts (map employee_role df))))
      else if metric = ''Completion by Organization''
        then Continue (Some (named (value_counts (map main_organization_unit df))))
      else if metric = ''Top 5 courses by completion''
        then Continue (Some (named (top5_courses df)))
      else if metric = ''Bottom 5 courses by completion''
        then Continue (Some (named (bottom5_courses df)))
      else if metric = ''Currently Enrolled''
        then Continue (Some (named (currently_enrolled df)))
      else if metric = ''Number of completions''
        then Continue (Some (by_month_no (number_of_completions df)))
      else if metric = ''Completion variance to previous month''
        then Continue (Some (by_period (completion_variance df)))
      else if metric = ''Number of employees registered vs completed (monthly trend)''
        then (let reg = by_period (map (\<lambda>(p, c). (p, int c))
                          (period_counts (map registration_date df)));
                  completed = by_period (map (\<lambda>(p, c). (p, int c))
                          (period_counts (map course_completion_date df)))
              in Dual reg completed)
      else Continue None)"

text \<open>
  One call on the axes: when it raises, the exception leaves \<open>render_chart\<close> with the
  calls drawn before it; otherwise the call is drawn and the rest follows.
\<close>

definition draw_then ::
  "plotter \<Rightarrow> draw \<Rightarrow> (py_exception + unit) \<times> draw list \<Rightarrow> (py_exception + unit) \<times> draw list" where
  "draw_then pl call rest =
     (case pl call of
        Some e \<Rightarrow> (Inl e, [])
      | None \<Rightarrow> (fst rest, call # snd rest))"

text \<open>
  The branch of the dual plot: each series is plotted over its own index (the months in
  which it has rows), then the legend, then \<open>return\<close>.
\<close>

definition draw_dual :: "plotter \<Rightarrow> series \<Rightarrow> series \<Rightarrow> (py_exception + unit) \<times> draw list" where
  "draw_dual pl reg completed =
     draw_then pl (Ax_plot (map fst reg) (map snd reg) ''Registered'')
       (draw_then pl (Ax_plot (map fst completed) (map snd completed) ''Completed'')
          (draw_then pl Ax_legend (Inr (), [])))"

text \<open>
  The second chain draws \<open>data\<close>. Reading \<open>data\<close> when it was never bound raises
  \<open>UnboundLocalError\<close>; in the Table branch \<open>ax.axis("off")\<close> comes before the first read.
  A style outside the four matches no branch and the function returns.
\<close>

definition draw_data ::
  "plotter \<Rightarrow> string \<Rightarrow> string \<Rightarrow> series option \<Rightarrow> (py_exception + unit) \<times> draw list" where
  "draw_data pl metric chart_type data =
     (if chart_type = ''Bar'' then
        (case data of None \<Rightarrow> (Inl (UnboundLocalError ''data''), [])
                    | Some d \<Rightarrow> draw_then pl (Data_plot ''bar'' d) (Inr (), []))
      else if chart_type = ''Line'' then
        (case data of None \<Rightarrow> (Inl (UnboundLocalError ''data''), [])
                    | Some d \<Rightarrow> draw_then pl (Data_plot ''line'' d) (Inr (), []))
      else if chart_type = ''Pie'' then
        (case data of None \<Rightarrow> (Inl (UnboundLocalError ''data''), [])
                    | Some d \<Rightarrow> draw_then pl (Data_plot_pie d) (Inr (), []))
      else if chart_type = ''Table'' then
        (case data of
           None \<Rightarrow> (Inl (UnboundLocalError ''data''), [Axis_off])
         | Some d \<Rightarrow>
             (case pl (Ax_table metric d) of
                Some e \<Rightarrow> (Inl e, [Axis_off])
              | None \<Rightarrow> (Inr (), [Axis_off, Ax_table metric d])))
      else (Inr (), []))"

definition render_chart ::
  "plotter \<Rightarrow> dataframe \<Rightarrow> string \<Rightarrow> string \<Rightarrow> (py_exception + unit) \<times> draw list" where
  "render_chart pl df metric chart_type =
     (case metric_chain df metric of
        Dual reg completed \<Rightarrow> draw_dual pl reg completed
      | Continue data \<Rightarrow> draw_data pl metric chart_type data)"

section \<open>Email delivery, on both sheets\<close>

text \<open>
  The process environment, the file system and the mail transport are external: each is
  a field of \<open>mail_env\<close>. A transport step answers \<open>None\<close> when it succeeds and
  \<open>Some e\<close> when it raises \<open>e\<close>; \<open>py_int\<close> is Python's \<open>int()\<close> on a string (\<open>None\<close>
  for \<open>ValueError\<close>); \<open>smtp_quit\<close> is what leaving the \<open>with\<close> block does.
\<close>

datatype attachment = Audio_mp3 string string | Application_pdf string string

record message =
  msg_from :: "string option"
  msg_to :: string
  msg_subject :: string
  msg_body :: string
  msg_parts :: "attachment list"

record mail_env =
  getenv :: "string \<Rightarrow> string option"
  py_int :: "string \<Rightarrow> int option"
  open_rb :: "string \<Rightarrow> py_exception + string"
  basename :: "string \<Rightarrow> string"
  smtp_connect :: "string option \<Rightarrow> int \<Rightarrow> py_exception option"
  smtp_starttls :: "py_exception option"
  smtp_login :: "string option \<Rightarrow> string option \<Rightarrow> py_exception option"
  smtp_sendmail :: "string option \<Rightarrow> string list \<Rightarrow> message \<Rightarrow> py_exception option"
  smtp_quit :: "py_exception option"

fun split_on :: "char \<Rightarrow> string \<Rightarrow> string list" where
  "split_on c [] = [[]]"
| "split_on c (x # xs) =
     (if x = c then [] # split_on c xs
      else (case split_on c xs of w # ws \<Rightarrow> (x # w) # ws | [] \<Rightarrow> [[x]]))"

fun join :: "string \<Rightarrow> string list \<Rightarrow> string" where
  "join sep [] = []"
| "join sep [x] = x"
| "join sep (x # y # ys) = x @ sep @ join sep (y # ys)"

definition bind_exc :: "py_exception + 'a \<Rightarrow> ('a \<Rightarrow> py_exception + 'b) \<Rightarrow> py_exception + 'b" where
  "bind_exc m f = (case m of Inl e \<Rightarrow> Inl e | Inr x \<Rightarrow> f x)"

definition raise_if :: "py_exception option \<Rightarrow> py_exception + unit" where
  "raise_if r = (case r of None \<Rightarrow> Inr () | Some e \<Rightarrow> Inl e)"

text \<open>\<open>if path: with open(path, "rb") as f: ...\<close>: skipped for \<open>None\<close> and for the empty string.\<close>

definition attach_if ::
  "mail_env \<Rightarrow> (string \<Rightarrow> string \<Rightarrow> attachment) \<Rightarrow> string option \<Rightarrow> py_exception + attachment list" where
  "attach_if env mk path =
     (case path of
        None \<Rightarrow> Inr []
      | Some p \<Rightarrow>
          if p = [] then Inr []
          else bind_exc (open_rb env p) (\<lambda>content. Inr [mk (basename env p) content]))"

text \<open>
  \<open>with smtplib.SMTP(host, port) as server\<close>: the constructor connects when a host is
  given; the block runs; leaving the block sends QUIT, also when the block raised, and
  an exception of QUIT replaces the block's. Without a host (\<open>None\<close> or the empty string)
  the constructor does not connect, the first command of the block raises
  \<open>SMTPServerDisconnected\<close> ("please run connect() first"), and the QUIT that follows is
  dropped for the same reason. \<open>smtp_sendmail\<close> stands for \<open>msg.as_string()\<close> followed by
  \<open>server.sendmail\<close>.
\<close>

definition smtp_session ::
  "mail_env \<Rightarrow> string option \<Rightarrow> int \<Rightarrow> string option \<Rightarrow> string option \<Rightarrow> string list \<Rightarrow> message
     \<Rightarrow> py_exception + unit" where
  "smtp_session env host port sender password recipients msg =
     (if host = None \<or> host = Some [] then Inl (Failure ''please run connect() first'')
      else
     bind_exc (raise_if (smtp_connect env host port)) (\<lambda>_.
       (let block =
              bind_exc (raise_if (smtp_starttls env)) (\<lambda>_.
              bind_exc (raise_if (smtp_login env sender password)) (\<lambda>_.
              raise_if (smtp_sendmail env sender recipients msg)))
        in case smtp_quit env of
             Some e \<Rightarrow> Inl e
           | None \<Rightarrow> block)))"

text \<open>The \<open>try\<close> block of \<open>send_email_with_attachments\<close> (Sheet 1).\<close>

definition send_attachments_body ::
  "mail_env \<Rightarrow> string \<Rightarrow> string \<Rightarrow> string option \<Rightarrow> string option \<Rightarrow> py_exception + unit" where
  "send_attachments_body env subject body audio_path pdf_path =
     (let sender = getenv env ''EMAIL_USERNAME'';
          password = getenv env ''EMAIL_PASSWORD''
      in case getenv env ''EMAIL_RECEIVERS'' of
           None \<Rightarrow> Inl (AttributeError ''split'')
         | Some rs \<Rightarrow>
            (let receivers = split_on CHR '','' rs;
                 host = getenv env ''EMAIL_HOST''
             in case getenv env ''EMAIL_PORT'' of
                  None \<Rightarrow> Inl (TypeError ''int'')
                | Some ps \<Rightarrow>
                   (case py_int env ps of
                      None \<Rightarrow> Inl (ValueError ps)
                    | Some port \<Rightarrow>
                       bind_exc (attach_if env Audio_mp3 audio_path) (\<lambda>audio.
                       bind_exc (attach_if env Application_pdf pdf_path) (\<lambda>pdf.
                         smtp_session env host port sender password receivers
                           \<lparr>msg_from = sender, msg_to = join '', '' receivers,
                            msg_subject = subject, msg_body = body,
                            msg_parts = audio @ pdf\<rparr>)))))"

text \<open>The function: \<open>return True\<close> at the end of the block, \<open>st.error\<close> and \<open>return False\<close> in the handler.\<close>

definition send_email_with_attachments ::
  "mail_env \<Rightarrow> string \<Rightarrow> string \<Rightarrow> string option \<Rightarrow> string option
     \<Rightarrow> (py_exception + bool) \<times> event list" where
  "send_email_with_attachments env subject body audio_path pdf_path =
     (case send_attachments_body env subject body audio_path pdf_path of
        Inr _ \<Rightarrow> (Inr True, [])
      | Inl e \<Rightarrow> (Inr False, [St_error ''Email Error: '' e]))"

text \<open>\<open>send_email_with_pdf\<close> (Sheet 2): one recipient, the report always attached.\<close>

definition send_pdf_body ::
  "mail_env \<Rightarrow> string \<Rightarrow> string \<Rightarrow> string \<Rightarrow> string \<Rightarrow> py_exception + unit" where
  "send_pdf_body env to_email subject body pdf_path =
     (let sender = getenv env ''EMAIL_USERNAME'';
          password = getenv env ''EMAIL_PASSWORD'';
          host = getenv env ''EMAIL_HOST''
      in case getenv env ''EMAIL_PORT'' of
           None \<Rightarrow> Inl (TypeError ''int'')
         | Some ps \<Rightarrow>
            (case py_int env ps of
               None \<Rightarrow> Inl (ValueError ps)
             | Some port \<Rightarrow>
                bind_exc (open_rb env pdf_path) (\<lambda>content.
                  smtp_session env host port sender password [to_email]
                    \<lparr>msg_from = sender, msg_to = to_email,
                     msg_subject = subject, msg_body = body,
                     msg_parts = [Application_pdf (basename env pdf_path) content]\<rparr>)))"

definition send_email_with_pdf ::
  "mail_env \<Rightarrow> string \<Rightarrow> string \<Rightarrow> string \<Rightarrow> string \<Rightarrow> (py_exception + bool) \<times> event list" where
  "send_email_with_pdf env to_email subject body pdf_path =
     (case send_pdf_body env to_email subject body pdf_path of
        Inr _ \<Rightarrow> (Inr True, [])
      | Inl e \<Rightarrow> (Inr False, [St_error ''Email Error: '' e]))"


subsection \<open>The daily email\<close>

definition daily_podcast_prompt :: "string \<Rightarrow> string" where
  "daily_podcast_prompt full_summary =
     ''Summarize the following into a podcast-style audio summary:'' @ nl @ nl @ full_summary"

text \<open>The subject: the envelope emoji, the title, an en dash and the date.\<close>

definition daily_subject :: "services \<Rightarrow> string" where
  "daily_subject sv =
     [CHR 0xF0, CHR 0x9F, CHR 0x93, CHR 0xA9] @ '' Daily Course Insights ''
       @ [CHR 0xE2, CHR 0x80, CHR 0x93] @ '' '' @ today sv"

definition cross_mark :: string where
  "cross_mark = [CHR 0xE2, CHR 0x9D, CHR 0x8C]"

text \<open>
  \<open>daily_auto_email\<close>: the batch loop, the text file, the podcast script (one more
  query, on the accurate tier), the narration, the PDF and the email. Every exception
  inside is caught by the function's own \<open>except Exception\<close>.
\<close>

definition daily_auto_email :: "agent \<Rightarrow> services \<Rightarrow> mail_env \<Rightarrow> world \<Rightarrow> world" where
  "daily_auto_email ag sv env w =
     (let (full_summary, w1) = batch_loop ag insight_options [] w;
          failed = (\<lambda>e w'. emit (St_error (cross_mark @ '' Auto email error: '') e) w')
      in case write_text sv ''auto_insights.txt'' full_summary of
           Some e \<Rightarrow> failed e w1
         | None \<Rightarrow>
            (case run_agent_on_prompt ag (daily_podcast_prompt full_summary) ''gpt-4'' w1 of
               (Inl msg, w2) \<Rightarrow> failed (Failure msg) w2
             | (Inr podcast_text, w2) \<Rightarrow>
                (case text_to_speech sv podcast_text ''auto_podcast.mp3'' of
                   Some e \<Rightarrow> failed e w2
                 | None \<Rightarrow>
                    (case generate_pdf_from_text sv full_summary ''auto_insights.pdf'' of
                       Some e \<Rightarrow> failed e w2
                     | None \<Rightarrow>
                        (let (sent, shown) =
                               send_email_with_attachments env (daily_subject sv)
                                 ''Attached are your latest daily insights and podcast summary.''
                                 (Some ''auto_podcast.mp3'') (Some ''auto_insights.pdf'');
                             w3 = w2\<lparr>events := events w2 @ shown\<rparr>
                         in case sent of
                              Inr True \<Rightarrow>
                                emit (St_success ([CHR 0xE2, CHR 0x9C, CHR 0x85]
                                        @ '' Email sent successfully.'')) w3
                            | Inr False \<Rightarrow> emit (St_error_text (cross_mark @ '' Email failed.'')) w3
                            | Inl e \<Rightarrow> failed e w3)))))"

section \<open>Concrete worlds and agents\<close>

definition world0 :: world where
  "world0 = \<lparr>calls = 0, events = [],
     state = \<lparr>last_insight = None, all_insights = None, report_data = [], final_pdf = None\<rparr>\<rparr>"

text \<open>A session in which a report was built earlier.\<close>

definition world_with_report :: world where
  "world_with_report = \<lparr>calls = 0, events = [],
     state = \<lparr>last_insight = None, all_insights = None,
       report_data = [(''Currently Enrolled'',
          \<lparr>entry_insight = ''Most open enrolments are in two courses.'',
           entry_chart_type = ''Line'',
           entry_chart_path = Some ''chart_Currently_Enrolled.png''\<rparr>)],
       final_pdf = Some ''final_report.pdf''\<rparr>\<rparr>"

definition unreachable_agent :: agent where
  "unreachable_agent n prompt model = Inl ''Connection error.''"

definition answering :: "string \<Rightarrow> agent" where
  "answering answer n prompt model = Inr answer"

definition limited_twice :: agent where
  "limited_twice n prompt model =
     (if n = 0 then Inl ''Rate limit reached for gpt-4'' else Inl ''Rate limit reached again'')"

text \<open>An agent that is rate-limited on the first submission only.\<close>

definition limited_once :: agent where
  "limited_once n prompt model =
     (if n = 0 then Inl ''Rate limit reached for gpt-4'' else Inr ''3'')"

text \<open>A drawing library that draws every call, and services that all succeed.\<close>

definition accepting_plotter :: plotter where
  "accepting_plotter call = None"

definition quiet_services :: services where
  "quiet_services =
     \<lparr>text_to_speech = (\<lambda>text_spoken filename. None),
      read_audio = (\<lambda>path. None),
      write_text = (\<lambda>path content. None),
      generate_pdf_from_text = (\<lambda>content filename. None),
      today = ''2024-05-01''\<rparr>"

section \<open>The specification's readings of the aggregates and of delivery\<close>

text \<open>The number of rows of a course that have no completion timestamp.\<close>

definition enrolled_count :: "dataframe \<Rightarrow> string \<Rightarrow> nat" where
  "enrolled_count df c =
     length (filter (\<lambda>r. course_name r = Some c \<and> course_completion_date r = None) df)"

text \<open>The number of rows of a course that have a completion timestamp: its completions.\<close>

definition completion_count :: "dataframe \<Rightarrow> string \<Rightarrow> nat" where
  "completion_count df c =
     length (filter (\<lambda>r. course_name r = Some c \<and> course_completion_date r \<noteq> None) df)"

text \<open>The course names of the rows the Currently Enrolled metric keeps.\<close>

definition open_rows :: "dataframe \<Rightarrow> string option list" where
  "open_rows df = map course_name (filter (\<lambda>r. course_completion_date r = None) df)"

text \<open>First difference of a series, entry by entry, with zero at the first entry.\<close>

definition variance_spec :: "('i \<times> int) list \<Rightarrow> ('i \<times> int) list" where
  "variance_spec s =
     map (\<lambda>k. (fst (s ! k), if k = 0 then 0 else snd (s ! k) - snd (s ! (k - 1))))
         [0..<length s]"

text \<open>
  The rows of a timestamp column that fall in a month: the count of that month.
\<close>

definition rows_in_month :: "timestamp option list \<Rightarrow> int \<times> nat \<Rightarrow> nat" where
  "rows_in_month col p =
     length (filter (\<lambda>c. case c of None \<Rightarrow> False
                              | Some t \<Rightarrow> ts_year t = fst p \<and> ts_month t = snd p) col)"

text \<open>The submissions and the sleeps of a trace, in order: what a retry would show in.\<close>

definition agent_events :: "event list \<Rightarrow> event list" where
  "agent_events evs =
     filter (\<lambda>e. case e of Submit prompt model \<Rightarrow> True | Sleep n \<Rightarrow> True | _ \<Rightarrow> False) evs"

text \<open>The first step that raises, in a list of step outcomes.\<close>

fun first_failure :: "py_exception option list \<Rightarrow> py_exception option" where
  "first_failure [] = None"
| "first_failure (None # rest) = first_failure rest"
| "first_failure (Some e # rest) = Some e"

text \<open>
  What an optional attachment path contributes to the message: nothing when it is
  absent or empty, otherwise one part with the base name and the content of the file,
  which must be readable.
\<close>

definition attached ::
  "mail_env \<Rightarrow> (string \<Rightarrow> string \<Rightarrow> attachment) \<Rightarrow> string option \<Rightarrow> attachment list \<Rightarrow> bool" where
  "attached env mk path parts =
     (case path of
        None \<Rightarrow> parts = []
      | Some p \<Rightarrow>
          if p = [] then parts = []
          else (case open_rb env p of
                  Inl e \<Rightarrow> False
                | Inr content \<Rightarrow> parts = [mk (basename env p) content]))"

section \<open>A concrete table and concrete mail environments\<close>

definition enrolment :: "string \<Rightarrow> timestamp option \<Rightarrow> timestamp option \<Rightarrow> course_record" where
  "enrolment course registered completed =
     \<lparr>platform = Some ''Coursera'', employee_role = Some ''Analyst'',
      main_organization_unit = Some ''Finance'', course_name = Some course,
      course_completion_date = completed, registration_date = registered\<rparr>"

definition on_day :: "int \<Rightarrow> nat \<Rightarrow> nat \<Rightarrow> timestamp option" where
  "on_day y m d = Some \<lparr>ts_year = y, ts_month = m, ts_day = d\<rparr>"

text \<open>Two open enrolments in one course, one completed enrolment in another.\<close>

definition three_rows :: dataframe where
  "three_rows =
     [enrolment ''Python Basics'' (on_day 2024 1 15) None,
      enrolment ''Python Basics'' (on_day 2024 2 3) None,
      enrolment ''SQL'' (on_day 2024 1 20) (on_day 2024 3 9)]"


text \<open>
  A mail relay that accepts exactly the configured host, port and credentials, and
  exactly the two messages the functions are to send; three files exist.
\<close>

definition relay_env :: mail_env where
  "relay_env =
     \<lparr>getenv = (\<lambda>name. if name = ''EMAIL_USERNAME'' then Some ''reports@example.org''
                        else if name = ''EMAIL_PASSWORD'' then Some ''secret''
                        else if name = ''EMAIL_RECEIVERS'' then Some ''a@example.org,b@example.org''
                        else if name = ''EMAIL_HOST'' then Some ''smtp.example.org''
                        else if name = ''EMAIL_PORT'' then Some ''587''
                        else None),
      py_int = (\<lambda>s. if s = ''587'' then Some 587 else None),
      open_rb = (\<lambda>path. if path = ''auto_podcast.mp3'' then Inr ''ID3''
                         else if path = ''auto_insights.pdf'' \<or> path = ''final_report.pdf''
                         then Inr ''%PDF''
                         else Inl (Failure ''No such file or directory'')),
      basename = (\<lambda>path. path),
      smtp_connect = (\<lambda>host port. if host = Some ''smtp.example.org'' \<and> port = 587 then None
                               else Some (Failure ''Connection refused'')),
      smtp_starttls = None,
      smtp_login = (\<lambda>sender password.
                      if sender = Some ''reports@example.org'' \<and> password = Some ''secret'' then None
                      else Some (Failure ''(535, Authentication failed)'')),
      smtp_sendmail = (\<lambda>sender recipients msg.
                      if sender = Some ''reports@example.org''
                         \<and> msg_from msg = Some ''reports@example.org''
                         \<and> (recipients = [''a@example.org'', ''b@example.org'']
                              \<and> msg_to msg = ''a@example.org, b@example.org''
                              \<and> msg_parts msg = [Audio_mp3 ''auto_podcast.mp3'' ''ID3'',
                                                  Application_pdf ''auto_insights.pdf'' ''%PDF'']
                            \<or> recipients = [''user@example.org'']
                              \<and> msg_to msg = ''user@example.org''
                              \<and> msg_parts msg = [Application_pdf ''final_report.pdf'' ''%PDF''])
                      then None
                      else Some (Failure ''(550, Message refused)'')),
      smtp_quit = None\<rparr>"

text \<open>The same relay with one variable of the configuration changed or missing.\<close>

definition configured :: "string \<Rightarrow> string option \<Rightarrow> mail_env" where
  "configured name v = relay_env\<lparr>getenv := (getenv relay_env)(name := v)\<rparr>"

section \<open>Properties\<close>

subsection \<open>The batch over the catalog\<close>

lemma length_insight_options: "length insight_options = 11"
  by (simp add: insight_options_def)

lemma batch_entries_Cons:
  "batch_entries ag k ((label, prompt) # rest) =
     (label, item_result ag k prompt) # batch_entries ag (Suc k) rest"
  by (simp add: batch_entries_def upt_conv_Cons map_Suc_upt[symmetric] del: upt_Suc)

text \<open>
  The loop computes the specification's entries: whatever the agent does, every item
  is submitted once and contributes one entry, after those of the items before it.
\<close>

lemma batch_loop_refines:
  "batch_loop ag catalog s w =
     (s @ render_entries (batch_entries ag (calls w) catalog),
      w\<lparr>calls := calls w + length catalog,
        events := events w
          @ map (\<lambda>(label, prompt). Submit (framing @ prompt) ''gpt-3.5-turbo'') catalog\<rparr>)"
proof (induction catalog arbitrary: s w)
  case Nil
  show ?case by (simp add: batch_entries_def render_entries_def)
next
  case (Cons item rest)
  obtain label prompt where item: "item = (label, prompt)" by (cases item)
  show ?case
    by (simp add: item Cons.IH batch_entries_Cons render_entries_def run_agent_on_prompt_def
        item_result_def split: sum.split)
qed

lemma batch_entries_labels: "map fst (batch_entries ag k catalog) = map fst catalog"
  by (rule nth_equalityI) (simp_all add: batch_entries_def)

lemma batch_entries_results:
  "map snd (batch_entries ag k catalog) =
     map (\<lambda>i. item_result ag (k + i) (snd (catalog ! i))) [0..<length catalog]"
  by (simp add: batch_entries_def comp_def)

text \<open>
  C1. For every agent and every starting world, the summary stored by the Generate All
  handler, which is also the one built by the daily email, is the concatenation of
  eleven entries, one per catalog item in catalog order: two line feeds, "### ", the
  item's label, a line feed, the result, a line feed. The result of the \<open>i\<close>-th item is
  the agent's answer to the framed prompt of that item, or, when that submission raised
  \<open>msg\<close>, the placeholder "[", warning sign, " Skipped due to error: ", \<open>msg\<close>, "]".
  Eleven submissions are made whatever fails, and the eleven labels are distinct.
\<close>

theorem generate_all_one_entry_per_item:
  "all_insights (state (generate_all ag w)) =
     Some (concat (map (\<lambda>i.
        [CHR 0x0A, CHR 0x0A] @ ''### '' @ fst (insight_options ! i) @ [CHR 0x0A]
          @ (case ag (calls w + i)
                    (''Analyze the dataset and return this insight:'' @ [CHR 0x0A, CHR 0x0A]
                       @ snd (insight_options ! i))
                    ''gpt-3.5-turbo'' of
               Inr answer \<Rightarrow> answer
             | Inl msg \<Rightarrow>
                 ''['' @ [CHR 0xE2, CHR 0x9A, CHR 0xA0, CHR 0xEF, CHR 0xB8, CHR 0x8F]
                   @ '' Skipped due to error: '' @ msg @ '']'')
          @ [CHR 0x0A]) [0..<11]))
   \<and> Some (fst (daily_auto_email_summary ag w)) = all_insights (state (generate_all ag w))
   \<and> length insight_options = 11
   \<and> distinct (map fst insight_options)
   \<and> calls (generate_all ag w) = calls w + 11
   \<and> calls (snd (daily_auto_email_summary ag w)) = calls w + 11"
proof -
  have text_of: "render_entries (batch_entries ag k catalog) =
      concat (map (\<lambda>i.
        [CHR 0x0A, CHR 0x0A] @ ''### '' @ fst (catalog ! i) @ [CHR 0x0A]
          @ (case ag (k + i)
                    (''Analyze the dataset and return this insight:'' @ [CHR 0x0A, CHR 0x0A]
                       @ snd (catalog ! i))
                    ''gpt-3.5-turbo'' of
               Inr answer \<Rightarrow> answer
             | Inl msg \<Rightarrow>
                 ''['' @ [CHR 0xE2, CHR 0x9A, CHR 0xA0, CHR 0xEF, CHR 0xB8, CHR 0x8F]
                   @ '' Skipped due to error: '' @ msg @ '']'')
          @ [CHR 0x0A]) [0..<length catalog])" for k catalog
    unfolding render_entries_def batch_entries_def entry_def skipped_def item_result_def
      framing_def nl_def
    by (simp add: comp_def)
  have stored: "all_insights (state (generate_all ag w))
      = Some (render_entries (batch_entries ag (calls w) insight_options))"
    by (simp add: generate_all_def batch_loop_refines emit_def)
  have daily: "fst (daily_auto_email_summary ag w)
      = render_entries (batch_entries ag (calls w) insight_options)"
    by (simp add: daily_auto_email_summary_def batch_loop_refines)
  have d: "distinct (map fst insight_options)"
    by (simp add: insight_options_def)
  have c: "calls (generate_all ag w) = calls w + 11"
    "calls (snd (daily_auto_email_summary ag w)) = calls w + 11"
    by (simp_all add: generate_all_def daily_auto_email_summary_def batch_loop_refines emit_def
        length_insight_options)
  from stored daily d c show ?thesis
    unfolding text_of length_insight_options by simp
qed

subsection \<open>Agent failures and the session state\<close>

text \<open>
  On Sheet 1 a failed query of the Generate Insight handler ends in an inline error and
  leaves the session state as it was.
\<close>

lemma generate_insight_failure_keeps_state:
  assumes "map_of insight_options selected_insight = Some prompt"
    and "ag (calls w) (framing @ prompt) ''gpt-4'' = Inl msg"
  shows "generate_insight ag selected_insight w =
           w\<lparr>calls := calls w + 1,
             events := events w @ [St_info ''Generating insight with GPT-4...'',
                                   Submit (framing @ prompt) ''gpt-4'',
                                   St_error ''Error: '' (Failure msg)]\<rparr>"
  using assms by (simp add: generate_insight_def run_agent_on_prompt_def emit_def)

text \<open>
  C3. On Sheet 2 the Generate Insights and Charts handler does not: in a session that
  holds a report, with the four metrics of the AI mode selected and an agent that cannot
  be reached, the exception leaves the handler, no error is shown by it, and
  \<open>report_data\<close>, which held the earlier report, is empty.
\<close>

theorem generate_insights_and_charts_unguarded:
  "generate_insights_and_charts unreachable_agent (take 4 metrics) ''''  world_with_report =
     (Inl ''Connection error.'',
      \<lparr>calls = 1,
       events = [Submit (explain_prompt ''Currently Enrolled'' '''') ''gpt-3.5-turbo''],
       state = \<lparr>last_insight = None, all_insights = None, report_data = [],
                final_pdf = Some ''final_report.pdf''\<rparr>\<rparr>)"
  by (simp add: generate_insights_and_charts_def metrics_def gpt_suggest_insights_def
      unreachable_agent_def world_with_report_def)

subsection \<open>How prompts are framed\<close>

lemma events_generate_all:
  "events (generate_all ag w) =
     events w
       @ map (\<lambda>(label, prompt). Submit (framing @ prompt) ''gpt-3.5-turbo'') insight_options
       @ [St_text_area (render_entries (batch_entries ag (calls w) insight_options)),
          St_download_button (render_entries (batch_entries ag (calls w) insight_options))
            ''All_Insights.txt'']"
  by (simp add: generate_all_def batch_loop_refines emit_def)

lemma ask_with_retry_first_event:
  "\<exists>rest. events (snd (ask_with_retry ag p w)) = events w @ Submit p ''gpt-4'' # rest"
  by (cases "ag (calls w) p ''gpt-4''")
     (simp_all add: ask_with_retry_def run_agent_on_prompt_def emit_def)

lemma events_world0: "events world0 = []"
  by (simp add: world0_def)

text \<open>
  C9, as stated, fails on the free-question handler: the prompt it submits for the
  question "How many rows?" does not contain the framing prefix anywhere.
\<close>

theorem free_question_prompt_counterexample:
  "events (ask_ai (answering ''42'') ''How many rows?'' world0) =
     [St_info ''Using GPT-4...'',
      Submit (analyst_prompt ''How many rows?'') ''gpt-4'',
      St_text_area ''42'',
      St_download_button ''42'' ''QnA_Insight.txt'']
   \<and> \<not> sublist ''Analyze the dataset and return this insight:'' (analyst_prompt ''How many rows?'')"
  by (simp add: ask_ai_def ask_with_retry_def run_agent_on_prompt_def emit_def answering_def
      world0_def analyst_prompt_def nl_def sublist_code(3))

text \<open>
  C9, amended. Every submission made for a catalog item is the framing prefix, an empty
  line and the item's catalog text, verbatim: the one submission of the Generate Insight
  handler for a label of the catalog, and the eleven of the Generate All handler and of
  the daily email, in catalog order. The label "2. Employees with 1 completion" has the
  text "Number of employees who have completed exactly 1 course.". The free-question
  handler frames the user's text with its own analyst prompt instead.
\<close>

theorem catalog_prompts_framed:
  "(map_of insight_options selected_insight = Some prompt \<longrightarrow>
      take (length (events w) + 2) (events (generate_insight ag selected_insight w)) =
        events w @ [St_info ''Generating insight with GPT-4...'',
                    Submit (''Analyze the dataset and return this insight:'' @ nl @ nl @ prompt)
                      ''gpt-4''])
   \<and> take (length (events w) + 11) (events (generate_all ag w)) =
        events w @ map (\<lambda>(label, prompt).
            Submit (''Analyze the dataset and return this insight:'' @ nl @ nl @ prompt)
              ''gpt-3.5-turbo'') insight_options
   \<and> events (snd (daily_auto_email_summary ag w)) =
        events w @ map (\<lambda>(label, prompt).
            Submit (''Analyze the dataset and return this insight:'' @ nl @ nl @ prompt)
              ''gpt-3.5-turbo'') insight_options
   \<and> map_of insight_options ''2. Employees with 1 completion''
        = Some ''Number of employees who have completed exactly 1 course.''
   \<and> (user_q \<noteq> [] \<longrightarrow>
        take (length (events w) + 2) (events (ask_ai ag user_q w)) =
          events w @ [St_info ''Using GPT-4...'', Submit (analyst_prompt user_q) ''gpt-4''])"
proof -
  have single: "map_of insight_options selected_insight = Some prompt \<Longrightarrow>
      take (length (events w) + 2) (events (generate_insight ag selected_insight w)) =
        events w @ [St_info ''Generating insight with GPT-4...'',
                    Submit (''Analyze the dataset and return this insight:'' @ nl @ nl @ prompt)
                      ''gpt-4'']"
    by (cases "ag (calls w) (framing @ prompt) ''gpt-4''")
       (simp_all add: generate_insight_def run_agent_on_prompt_def emit_def framing_def)
  have batch: "take (length (events w) + 11) (events (generate_all ag w)) =
        events w @ map (\<lambda>(label, prompt).
            Submit (''Analyze the dataset and return this insight:'' @ nl @ nl @ prompt)
              ''gpt-3.5-turbo'') insight_options"
    by (simp add: events_generate_all length_insight_options framing_def)
  have daily: "events (snd (daily_auto_email_summary ag w)) =
        events w @ map (\<lambda>(label, prompt).
            Submit (''Analyze the dataset and return this insight:'' @ nl @ nl @ prompt)
              ''gpt-3.5-turbo'') insight_options"
    by (simp add: daily_auto_email_summary_def batch_loop_refines framing_def)
  have label2: "map_of insight_options ''2. Employees with 1 completion''
        = Some ''Number of employees who have completed exactly 1 course.''"
    by (simp add: insight_options_def)
  have free: "user_q \<noteq> [] \<Longrightarrow>
        take (length (events w) + 2) (events (ask_ai ag user_q w)) =
          events w @ [St_info ''Using GPT-4...'', Submit (analyst_prompt user_q) ''gpt-4'']"
    using ask_with_retry_first_event [of ag "analyst_prompt user_q"
        "emit (St_info ''Using GPT-4...'') w"]
    by (auto simp add: ask_ai_def emit_def split: prod.split sum.split)
  from single batch daily label2 free show ?thesis by blast
qed

theorem catalog_prompts_framed_witness:
  "map_of insight_options ''2. Employees with 1 completion''
     = Some ''Number of employees who have completed exactly 1 course.''
   \<and> take 2 (events (generate_insight (answering ''3'') ''2. Employees with 1 completion'' world0)) =
       [St_info ''Generating insight with GPT-4...'',
        Submit (''Analyze the dataset and return this insight:'' @ nl @ nl
                  @ ''Number of employees who have completed exactly 1 course.'') ''gpt-4'']
   \<and> take 2 (events (ask_ai (answering ''3'') ''How many rows?'' world0)) =
       [St_info ''Using GPT-4...'', Submit (analyst_prompt ''How many rows?'') ''gpt-4'']"
proof -
  note framed = catalog_prompts_framed [of "''2. Employees with 1 completion''"
      "''Number of employees who have completed exactly 1 course.''" world0 "answering ''3''"
      "''How many rows?''"]
  have label2: "map_of insight_options ''2. Employees with 1 completion''
     = Some ''Number of employees who have completed exactly 1 course.''"
    by (simp add: insight_options_def)
  have asked: "''How many rows?'' \<noteq> []"
    by simp
  from framed label2
  have single: "take (length (events world0) + 2)
       (events (generate_insight (answering ''3'') ''2. Employees with 1 completion'' world0)) =
     events world0 @ [St_info ''Generating insight with GPT-4...'',
        Submit (''Analyze the dataset and return this insight:'' @ nl @ nl
                  @ ''Number of employees who have completed exactly 1 course.'') ''gpt-4'']"
    by (elim conjE) (erule mp)
  from framed asked
  have free: "take (length (events world0) + 2)
       (events (ask_ai (answering ''3'') ''How many rows?'' world0)) =
     events world0 @ [St_info ''Using GPT-4...'', Submit (analyst_prompt ''How many rows?'') ''gpt-4'']"
    by (elim conjE) (erule mp)
  have single': "take 2
       (events (generate_insight (answering ''3'') ''2. Employees with 1 completion'' world0)) =
     [St_info ''Generating insight with GPT-4...'',
        Submit (''Analyze the dataset and return this insight:'' @ nl @ nl
                  @ ''Number of employees who have completed exactly 1 course.'') ''gpt-4'']"
    using single by (simp add: events_world0 numeral_2_eq_2)
  have free': "take 2
       (events (ask_ai (answering ''3'') ''How many rows?'' world0)) =
     [St_info ''Using GPT-4...'', Submit (analyst_prompt ''How many rows?'') ''gpt-4'']"
    using free by (simp add: events_world0 numeral_2_eq_2)
  from label2 single' free' show ?thesis
    by (intro conjI)
qed

subsection \<open>Retries, flow by flow\<close>

lemma agent_events_append: "agent_events (xs @ ys) = agent_events xs @ agent_events ys"
  by (simp add: agent_events_def)

lemma agent_events_simps:
  "agent_events [] = []"
  "agent_events (Submit p m # evs) = Submit p m # agent_events evs"
  "agent_events (Sleep n # evs) = Sleep n # agent_events evs"
  "agent_events (St_info a # evs) = agent_events evs"
  "agent_events (St_warning a # evs) = agent_events evs"
  "agent_events (St_error a e # evs) = agent_events evs"
  "agent_events (St_text_area a # evs) = agent_events evs"
  "agent_events (St_download_button a b # evs) = agent_events evs"
  "agent_events (St_success a # evs) = agent_events evs"
  "agent_events (St_error_text a # evs) = agent_events evs"
  "agent_events (St_audio a # evs) = agent_events evs"
  by (simp_all add: agent_events_def)

lemma agent_events_submits: "agent_events (map (\<lambda>x. Submit (f x) (g x)) xs) = map (\<lambda>x. Submit (f x) (g x)) xs"
  by (induction xs) (simp_all add: agent_events_simps)

lemma narrate_agent_events:
  "agent_events (events (narrate sv t f emoji w)) = agent_events (events w)"
  "calls (narrate sv t f emoji w) = calls w"
  by (simp_all add: narrate_def emit_def agent_events_append agent_events_simps
      split: option.split)

lemma send_attachments_shown:
  "agent_events (snd (send_email_with_attachments env subject body a p)) = []"
  by (simp add: send_email_with_attachments_def agent_events_simps split: sum.split)

lemma suggest_loop_trace:
  "suggest_loop ag ct ms w = (r, w') \<Longrightarrow>
     calls w \<le> calls w' \<and> calls w' - calls w \<le> length ms
     \<and> events w' = events w
          @ map (\<lambda>m. Submit (''Explain: '' @ m @ ''. Context: '' @ ct
                               @ ''. Keep it concise (5 lines).'') ''gpt-3.5-turbo'')
                (take (calls w' - calls w) ms)
     \<and> (r = Inr () \<longrightarrow> calls w' - calls w = length ms)
     \<and> (\<forall>msg. r = Inl msg \<longrightarrow>
           calls w < calls w'
           \<and> ag (calls w' - 1)
                 (''Explain: '' @ ms ! (calls w' - calls w - 1) @ ''. Context: '' @ ct
                    @ ''. Keep it concise (5 lines).'') ''gpt-3.5-turbo'' = Inl msg)"
proof (induction ms arbitrary: w)
  case Nil
  then show ?case by auto
next
  case (Cons m ms)
  show ?case
  proof (cases "ag (calls w) (explain_prompt m ct) ''gpt-3.5-turbo''")
    case (Inl msg)
    with Cons.prems show ?thesis
      by (auto simp add: gpt_suggest_insights_def explain_prompt_def)
  next
    case (Inr insight)
    let ?w1 = "w\<lparr>calls := Suc (calls w),
                   events := events w @ [Submit (explain_prompt m ct) ''gpt-3.5-turbo''],
                   state := (state w)\<lparr>report_data :=
                     AList.update m
                       \<lparr>entry_insight = insight, entry_chart_type = ''Bar'', entry_chart_path = None\<rparr>
                       (report_data (state w))\<rparr>\<rparr>"
    from Cons.prems Inr have rec: "suggest_loop ag ct ms ?w1 = (r, w')"
      by (simp add: gpt_suggest_insights_def)
    note ih = Cons.IH [OF rec]
    from ih have le: "Suc (calls w) \<le> calls w'" by simp
    then obtain k where k: "calls w' = Suc (calls w) + k"
      using le_Suc_ex by blast
    from ih k show ?thesis
      by (auto simp add: explain_prompt_def)
  qed
qed


lemma ask_with_retry_cases:
  "(calls (snd (ask_with_retry ag p w)) = calls w + 1
      \<or> calls (snd (ask_with_retry ag p w)) = calls w + 2)
   \<and> (calls (snd (ask_with_retry ag p w)) = calls w + 2
        \<longleftrightarrow> (\<exists>msg. ag (calls w) p ''gpt-4'' = Inl msg \<and> sublist ''Rate limit'' msg))
   \<and> (calls (snd (ask_with_retry ag p w)) = calls w + 2 \<longrightarrow>
        events (snd (ask_with_retry ag p w))
          = events w @ [Submit p ''gpt-4'', St_warning ''Rate limit hit. Waiting 20 seconds...'',
                        Sleep 20, Submit p ''gpt-4'']
        \<and> fst (ask_with_retry ag p w) = ag (calls w + 1) p ''gpt-4'')
   \<and> (calls (snd (ask_with_retry ag p w)) = calls w + 1 \<longrightarrow>
        events (snd (ask_with_retry ag p w)) = events w @ [Submit p ''gpt-4'']
        \<and> fst (ask_with_retry ag p w) = ag (calls w) p ''gpt-4'')
   \<and> state (snd (ask_with_retry ag p w)) = state w"
proof (cases "ag (calls w) p ''gpt-4''")
  case (Inr answer)
  then show ?thesis
    by (simp add: ask_with_retry_def run_agent_on_prompt_def)
next
  case (Inl msg)
  show ?thesis
  proof (cases "sublist ''Rate limit'' msg")
    case True
    with Inl show ?thesis
      by (simp add: ask_with_retry_def run_agent_on_prompt_def emit_def)
  next
    case False
    with Inl show ?thesis
      by (simp add: ask_with_retry_def run_agent_on_prompt_def)
  qed
qed

lemma ask_ai_agent_events:
  assumes "user_q \<noteq> []"
  shows "agent_events (events (ask_ai ag user_q w)) =
           agent_events (events w)
             @ (if \<exists>msg. ag (calls w) (analyst_prompt user_q) ''gpt-4'' = Inl msg
                          \<and> sublist ''Rate limit'' msg
                then [Submit (analyst_prompt user_q) ''gpt-4'', Sleep 20,
                      Submit (analyst_prompt user_q) ''gpt-4'']
                else [Submit (analyst_prompt user_q) ''gpt-4''])"
    and "fst (ask_with_retry ag (analyst_prompt user_q) (emit (St_info ''Using GPT-4...'') w))
           = Inl msg \<Longrightarrow>
         last (events (ask_ai ag user_q w)) = St_error ''Smart Q&A Error: '' (Failure msg)"
proof -
  let ?w0 = "emit (St_info ''Using GPT-4...'') w"
  let ?p = "analyst_prompt user_q"
  note cases = ask_with_retry_cases [of ag ?p ?w0]
  have c0: "calls ?w0 = calls w" "events ?w0 = events w @ [St_info ''Using GPT-4...'']"
    by (simp_all add: emit_def)
  show "agent_events (events (ask_ai ag user_q w)) =
           agent_events (events w)
             @ (if \<exists>msg. ag (calls w) ?p ''gpt-4'' = Inl msg \<and> sublist ''Rate limit'' msg
                then [Submit ?p ''gpt-4'', Sleep 20, Submit ?p ''gpt-4'']
                else [Submit ?p ''gpt-4''])"
  proof (cases "\<exists>msg. ag (calls w) ?p ''gpt-4'' = Inl msg \<and> sublist ''Rate limit'' msg")
    case True
    with cases c0 have "events (snd (ask_with_retry ag ?p ?w0))
        = events w @ [St_info ''Using GPT-4...'', Submit ?p ''gpt-4'',
            St_warning ''Rate limit hit. Waiting 20 seconds...'', Sleep 20, Submit ?p ''gpt-4'']"
      by simp
    with True assms show ?thesis
      by (cases "ask_with_retry ag ?p ?w0"; cases "fst (ask_with_retry ag ?p ?w0)")
         (simp_all add: ask_ai_def emit_def agent_events_append agent_events_simps)
  next
    case False
    with cases c0 have "events (snd (ask_with_retry ag ?p ?w0))
        = events w @ [St_info ''Using GPT-4...'', Submit ?p ''gpt-4'']"
      by auto
    with False assms show ?thesis
      by (cases "ask_with_retry ag ?p ?w0"; cases "fst (ask_with_retry ag ?p ?w0)")
         (simp_all add: ask_ai_def emit_def agent_events_append agent_events_simps)
  qed
  show "last (events (ask_ai ag user_q w)) = St_error ''Smart Q&A Error: '' (Failure msg)"
    if "fst (ask_with_retry ag ?p ?w0) = Inl msg"
    using that assms
    by (cases "ask_with_retry ag ?p ?w0") (simp add: ask_ai_def emit_def)
qed

lemma generate_insight_trace:
  assumes "map_of insight_options selected_insight = Some prompt"
  shows "calls (generate_insight ag selected_insight w) = calls w + 1"
    and "events (generate_insight ag selected_insight w) =
           events w
             @ [St_info ''Generating insight with GPT-4...'',
                Submit (''Analyze the dataset and return this insight:'' @ nl @ nl @ prompt)
                  ''gpt-4'']
             @ (case ag (calls w)
                       (''Analyze the dataset and return this insight:'' @ nl @ nl @ prompt)
                       ''gpt-4'' of
                  Inl msg \<Rightarrow> [St_error ''Error: '' (Failure msg)]
                | Inr answer \<Rightarrow> [St_text_area answer, St_download_button answer ''Insight.txt''])"
  using assms
  by (cases "ag (calls w) (framing @ prompt) ''gpt-4''";
      simp add: generate_insight_def run_agent_on_prompt_def emit_def framing_def Let_def)+

lemma generate_podcast_trace:
  assumes "last_insight (state w) = Some insight_text"
  shows "calls (generate_podcast ag sv w) = calls w + 1"
    and "agent_events (events (generate_podcast ag sv w)) =
           agent_events (events w)
             @ [Submit (''Convert this into a 60-second podcast summary:'' @ nl @ nl @ insight_text)
                  ''gpt-4'']"
    and "ag (calls w) (''Convert this into a 60-second podcast summary:'' @ nl @ nl @ insight_text)
            ''gpt-4'' = Inl msg \<Longrightarrow>
         events (generate_podcast ag sv w) =
           events w
             @ [Submit (''Convert this into a 60-second podcast summary:'' @ nl @ nl @ insight_text)
                  ''gpt-4'',
                St_error ''Podcast error: '' (Failure msg)]"
  using assms
  by (cases "ag (calls w) (podcast_prompt_single insight_text) ''gpt-4''";
      simp add: generate_podcast_def run_agent_on_prompt_def emit_def podcast_prompt_single_def
        narrate_agent_events agent_events_append agent_events_simps)+

lemma generate_full_podcast_trace:
  assumes "all_insights (state w) = Some summary"
  shows "calls (generate_full_podcast ag sv w) = calls w + 1"
    and "agent_events (events (generate_full_podcast ag sv w)) =
           agent_events (events w)
             @ [Submit (''Summarize all these insights into a 2-minute podcast:'' @ nl @ nl @ summary)
                  ''gpt-4'']"
    and "ag (calls w) (''Summarize all these insights into a 2-minute podcast:'' @ nl @ nl @ summary)
            ''gpt-4'' = Inl msg \<Longrightarrow>
         events (generate_full_podcast ag sv w) =
           events w
             @ [Submit (''Summarize all these insights into a 2-minute podcast:'' @ nl @ nl @ summary)
                  ''gpt-4'',
                St_error ''Podcast error: '' (Failure msg)]"
  using assms
  by (cases "ag (calls w) (podcast_prompt_all summary) ''gpt-4''";
      simp add: generate_full_podcast_def run_agent_on_prompt_def emit_def
        podcast_prompt_all_def narrate_agent_events agent_events_append agent_events_simps)+

lemma generate_all_agent_events:
  "calls (generate_all ag w) = calls w + 11"
  "agent_events (events (generate_all ag w)) =
     agent_events (events w)
       @ map (\<lambda>(label, prompt).
            Submit (''Analyze the dataset and return this insight:'' @ nl @ nl @ prompt)
              ''gpt-3.5-turbo'') insight_options"
proof -
  show "calls (generate_all ag w) = calls w + 11"
    by (simp add: generate_all_def batch_loop_refines emit_def length_insight_options)
  have "agent_events (map (\<lambda>(label, prompt). Submit (framing @ prompt) ''gpt-3.5-turbo'')
          insight_options)
        = map (\<lambda>(label, prompt). Submit (framing @ prompt) ''gpt-3.5-turbo'') insight_options"
    using agent_events_submits [of "\<lambda>x. framing @ snd x" "\<lambda>x. ''gpt-3.5-turbo''" insight_options]
    by (simp add: split_def)
  then show "agent_events (events (generate_all ag w)) =
     agent_events (events w)
       @ map (\<lambda>(label, prompt).
            Submit (''Analyze the dataset and return this insight:'' @ nl @ nl @ prompt)
              ''gpt-3.5-turbo'') insight_options"
    by (simp add: events_generate_all agent_events_append agent_events_simps framing_def)
qed


lemma daily_auto_email_trace:
  "agent_events (events (daily_auto_email ag sv env w)) =
     agent_events (events w)
       @ map (\<lambda>(label, prompt).
            Submit (''Analyze the dataset and return this insight:'' @ nl @ nl @ prompt)
              ''gpt-3.5-turbo'') insight_options
       @ (if write_text sv ''auto_insights.txt'' (fst (daily_auto_email_summary ag w)) = None
          then [Submit (''Summarize the following into a podcast-style audio summary:'' @ nl @ nl
                          @ fst (daily_auto_email_summary ag w)) ''gpt-4'']
          else [])"
  "calls (daily_auto_email ag sv env w) =
     calls w + 11
       + (if write_text sv ''auto_insights.txt'' (fst (daily_auto_email_summary ag w)) = None
          then 1 else 0)"
  "write_text sv ''auto_insights.txt'' (fst (daily_auto_email_summary ag w)) = None
     \<and> ag (calls w + 11)
          (''Summarize the following into a podcast-style audio summary:'' @ nl @ nl
             @ fst (daily_auto_email_summary ag w)) ''gpt-4'' = Inl msg \<Longrightarrow>
   last (events (daily_auto_email ag sv env w)) =
     St_error ([CHR 0xE2, CHR 0x9D, CHR 0x8C] @ '' Auto email error: '') (Failure msg)"
proof -
  let ?S = "render_entries (batch_entries ag (calls w) insight_options)"
  have S: "fst (daily_auto_email_summary ag w) = ?S"
    by (simp add: daily_auto_email_summary_def batch_loop_refines)
  have submits: "agent_events (map (\<lambda>(label, prompt). Submit (framing @ prompt) ''gpt-3.5-turbo'')
          insight_options)
        = map (\<lambda>(label, prompt). Submit (framing @ prompt) ''gpt-3.5-turbo'') insight_options"
    using agent_events_submits [of "\<lambda>x. framing @ snd x" "\<lambda>x. ''gpt-3.5-turbo''" insight_options]
    by (simp add: split_def)
  obtain sent shown where mail:
    "send_email_with_attachments env (daily_subject sv)
       ''Attached are your latest daily insights and podcast summary.''
       (Some ''auto_podcast.mp3'') (Some ''auto_insights.pdf'') = (sent, shown)"
    by (cases "send_email_with_attachments env (daily_subject sv)
                 ''Attached are your latest daily insights and podcast summary.''
                 (Some ''auto_podcast.mp3'') (Some ''auto_insights.pdf'')")
  have shown: "agent_events shown = []"
    using send_attachments_shown [of env "daily_subject sv"
        "''Attached are your latest daily insights and podcast summary.''"
        "Some ''auto_podcast.mp3''" "Some ''auto_insights.pdf''"]
    by (simp add: mail)
  show "agent_events (events (daily_auto_email ag sv env w)) =
     agent_events (events w)
       @ map (\<lambda>(label, prompt).
            Submit (''Analyze the dataset and return this insight:'' @ nl @ nl @ prompt)
              ''gpt-3.5-turbo'') insight_options
       @ (if write_text sv ''auto_insights.txt'' (fst (daily_auto_email_summary ag w)) = None
          then [Submit (''Summarize the following into a podcast-style audio summary:'' @ nl @ nl
                          @ fst (daily_auto_email_summary ag w)) ''gpt-4'']
          else [])"
    unfolding S using submits shown
    by (auto simp add: daily_auto_email_def batch_loop_refines run_agent_on_prompt_def emit_def
          daily_podcast_prompt_def agent_events_append agent_events_simps framing_def mail Let_def
          split: option.split sum.split bool.split)
  show "calls (daily_auto_email ag sv env w) =
     calls w + 11
       + (if write_text sv ''auto_insights.txt'' (fst (daily_auto_email_summary ag w)) = None
          then 1 else 0)"
    unfolding S
    by (auto simp add: daily_auto_email_def batch_loop_refines run_agent_on_prompt_def emit_def
          length_insight_options mail Let_def split: option.split sum.split bool.split)
  show "last (events (daily_auto_email ag sv env w)) =
     St_error ([CHR 0xE2, CHR 0x9D, CHR 0x8C] @ '' Auto email error: '') (Failure msg)"
    if "write_text sv ''auto_insights.txt'' (fst (daily_auto_email_summary ag w)) = None
     \<and> ag (calls w + 11)
          (''Summarize the following into a podcast-style audio summary:'' @ nl @ nl
             @ fst (daily_auto_email_summary ag w)) ''gpt-4'' = Inl msg"
    using that unfolding S
    by (simp add: daily_auto_email_def batch_loop_refines run_agent_on_prompt_def emit_def
        daily_podcast_prompt_def length_insight_options cross_mark_def)
qed

lemma generate_insights_and_charts_trace:
  assumes "selected_metrics \<noteq> []"
  shows "calls w \<le> calls (snd (generate_insights_and_charts ag selected_metrics custom_text w))
     \<and> calls (snd (generate_insights_and_charts ag selected_metrics custom_text w)) - calls w
         \<le> length selected_metrics
     \<and> events (snd (generate_insights_and_charts ag selected_metrics custom_text w)) =
         events w
           @ map (\<lambda>m. Submit (''Explain: '' @ m @ ''. Context: '' @ custom_text
                                @ ''. Keep it concise (5 lines).'') ''gpt-3.5-turbo'')
                 (take (calls (snd (generate_insights_and_charts ag selected_metrics custom_text w))
                          - calls w) selected_metrics)
     \<and> (fst (generate_insights_and_charts ag selected_metrics custom_text w) = Inr () \<longrightarrow>
          calls (snd (generate_insights_and_charts ag selected_metrics custom_text w)) - calls w
            = length selected_metrics)
     \<and> (\<forall>msg. fst (generate_insights_and_charts ag selected_metrics custom_text w) = Inl msg \<longrightarrow>
           calls w < calls (snd (generate_insights_and_charts ag selected_metrics custom_text w))
           \<and> ag (calls (snd (generate_insights_and_charts ag selected_metrics custom_text w)) - 1)
                 (''Explain: ''
                    @ selected_metrics
                        ! (calls (snd (generate_insights_and_charts ag selected_metrics custom_text w))
                             - calls w - 1)
                    @ ''. Context: '' @ custom_text @ ''. Keep it concise (5 lines).'')
                 ''gpt-3.5-turbo'' = Inl msg)"
proof -
  let ?w0 = "w\<lparr>state := (state w)\<lparr>report_data := []\<rparr>\<rparr>"
  obtain r w' where run: "suggest_loop ag custom_text selected_metrics ?w0 = (r, w')"
    by (cases "suggest_loop ag custom_text selected_metrics ?w0")
  with assms have whole: "generate_insights_and_charts ag selected_metrics custom_text w = (r, w')"
    by (simp add: generate_insights_and_charts_def)
  from suggest_loop_trace [OF run] show ?thesis
    unfolding whole by simp
qed


text \<open>
  C2. Every call of the adapter is followed by at most one resubmission, and only after
  a failure whose text contains "Rate limit". The projection of a handler's trace to
  its submissions and sleeps shows it for every flow that calls the adapter.
  \<^item> Free question (Ask AI): one or two submissions of the same prompt, two exactly when
    the first raised with such a text; then the trace is submission, warning, a sleep
    of 20, submission, and the outcome of the second submission, answer or exception,
    is the outcome; with one submission its outcome is the outcome. A failure that
    comes out is shown as "Smart Q&A Error".
  \<^item> Single insight, the two podcasts, the eleven queries of Generate All and of the
    daily email, the podcast query of the daily email and the queries of Sheet 2: each
    is submitted exactly once and never again, whatever it raises; no sleep occurs.
    The failure goes to the caller: it is shown ("Error", "Podcast error",
    "Auto email error"), or leaves the Sheet 2 handler, which stops at the first
    failing metric (in the batch loops it becomes the placeholder of C1).
\<close>

theorem rate_limit_retry_at_most_once:
  "(calls (snd (ask_with_retry ag p w)) = calls w + 1
      \<or> calls (snd (ask_with_retry ag p w)) = calls w + 2)
   \<and> (calls (snd (ask_with_retry ag p w)) = calls w + 2
        \<longleftrightarrow> (\<exists>msg. ag (calls w) p ''gpt-4'' = Inl msg \<and> sublist ''Rate limit'' msg))
   \<and> (calls (snd (ask_with_retry ag p w)) = calls w + 2 \<longrightarrow>
        events (snd (ask_with_retry ag p w))
          = events w @ [Submit p ''gpt-4'', St_warning ''Rate limit hit. Waiting 20 seconds...'',
                        Sleep 20, Submit p ''gpt-4'']
        \<and> fst (ask_with_retry ag p w) = ag (calls w + 1) p ''gpt-4'')
   \<and> (calls (snd (ask_with_retry ag p w)) = calls w + 1 \<longrightarrow>
        events (snd (ask_with_retry ag p w)) = events w @ [Submit p ''gpt-4'']
        \<and> fst (ask_with_retry ag p w) = ag (calls w) p ''gpt-4'')
   \<and> state (snd (ask_with_retry ag p w)) = state w
   \<and> (user_q \<noteq> [] \<longrightarrow>
        agent_events (events (ask_ai ag user_q w)) =
          agent_events (events w)
            @ (if \<exists>msg. ag (calls w) (analyst_prompt user_q) ''gpt-4'' = Inl msg
                         \<and> sublist ''Rate limit'' msg
               then [Submit (analyst_prompt user_q) ''gpt-4'', Sleep 20,
                     Submit (analyst_prompt user_q) ''gpt-4'']
               else [Submit (analyst_prompt user_q) ''gpt-4''])
        \<and> (\<forall>msg. fst (ask_with_retry ag (analyst_prompt user_q)
                         (emit (St_info ''Using GPT-4...'') w)) = Inl msg \<longrightarrow>
              last (events (ask_ai ag user_q w)) = St_error ''Smart Q&A Error: '' (Failure msg)))
   \<and> (map_of insight_options selected_insight = Some prompt \<longrightarrow>
        calls (generate_insight ag selected_insight w) = calls w + 1
        \<and> events (generate_insight ag selected_insight w) =
            events w
              @ [St_info ''Generating insight with GPT-4...'',
                 Submit (''Analyze the dataset and return this insight:'' @ nl @ nl @ prompt)
                   ''gpt-4'']
              @ (case ag (calls w)
                        (''Analyze the dataset and return this insight:'' @ nl @ nl @ prompt)
                        ''gpt-4'' of
                   Inl msg \<Rightarrow> [St_error ''Error: '' (Failure msg)]
                 | Inr answer \<Rightarrow> [St_text_area answer, St_download_button answer ''Insight.txt'']))
   \<and> (last_insight (state w) = Some insight_text \<longrightarrow>
        calls (generate_podcast ag sv w) = calls w + 1
        \<and> agent_events (events (generate_podcast ag sv w)) =
            agent_events (events w)
              @ [Submit (''Convert this into a 60-second podcast summary:'' @ nl @ nl @ insight_text)
                   ''gpt-4'']
        \<and> (\<forall>msg. ag (calls w)
                      (''Convert this into a 60-second podcast summary:'' @ nl @ nl @ insight_text)
                      ''gpt-4'' = Inl msg \<longrightarrow>
              events (generate_podcast ag sv w) =
                events w
                  @ [Submit (''Convert this into a 60-second podcast summary:'' @ nl @ nl
                               @ insight_text) ''gpt-4'',
                     St_error ''Podcast error: '' (Failure msg)]))
   \<and> (all_insights (state w) = Some summary \<longrightarrow>
        calls (generate_full_podcast ag sv w) = calls w + 1
        \<and> agent_events (events (generate_full_podcast ag sv w)) =
            agent_events (events w)
              @ [Submit (''Summarize all these insights into a 2-minute podcast:'' @ nl @ nl
                           @ summary) ''gpt-4'']
        \<and> (\<forall>msg. ag (calls w)
                      (''Summarize all these insights into a 2-minute podcast:'' @ nl @ nl @ summary)
                      ''gpt-4'' = Inl msg \<longrightarrow>
              events (generate_full_podcast ag sv w) =
                events w
                  @ [Submit (''Summarize all these insights into a 2-minute podcast:'' @ nl @ nl
                               @ summary) ''gpt-4'',
                     St_error ''Podcast error: '' (Failure msg)]))
   \<and> calls (generate_all ag w) = calls w + 11
   \<and> agent_events (events (generate_all ag w)) =
        agent_events (events w)
          @ map (\<lambda>(label, prompt).
               Submit (''Analyze the dataset and return this insight:'' @ nl @ nl @ prompt)
                 ''gpt-3.5-turbo'') insight_options
   \<and> agent_events (events (daily_auto_email ag sv env w)) =
        agent_events (events w)
          @ map (\<lambda>(label, prompt).
               Submit (''Analyze the dataset and return this insight:'' @ nl @ nl @ prompt)
                 ''gpt-3.5-turbo'') insight_options
          @ (if write_text sv ''auto_insights.txt'' (fst (daily_auto_email_summary ag w)) = None
             then [Submit (''Summarize the following into a podcast-style audio summary:''
                             @ nl @ nl @ fst (daily_auto_email_summary ag w)) ''gpt-4'']
             else [])
   \<and> calls (daily_auto_email ag sv env w) =
        calls w + 11
          + (if write_text sv ''auto_insights.txt'' (fst (daily_auto_email_summary ag w)) = None
             then 1 else 0)
   \<and> (\<forall>msg. write_text sv ''auto_insights.txt'' (fst (daily_auto_email_summary ag w)) = None
             \<and> ag (calls w + 11)
                  (''Summarize the following into a podcast-style audio summary:'' @ nl @ nl
                     @ fst (daily_auto_email_summary ag w)) ''gpt-4'' = Inl msg \<longrightarrow>
          last (events (daily_auto_email ag sv env w)) =
            St_error ([CHR 0xE2, CHR 0x9D, CHR 0x8C] @ '' Auto email error: '') (Failure msg))
   \<and> (selected_metrics \<noteq> [] \<longrightarrow>
        calls w \<le> calls (snd (generate_insights_and_charts ag selected_metrics custom_text w))
        \<and> calls (snd (generate_insights_and_charts ag selected_metrics custom_text w)) - calls w
            \<le> length selected_metrics
        \<and> events (snd (generate_insights_and_charts ag selected_metrics custom_text w)) =
            events w
              @ map (\<lambda>m. Submit (''Explain: '' @ m @ ''. Context: '' @ custom_text
                                   @ ''. Keep it concise (5 lines).'') ''gpt-3.5-turbo'')
                    (take (calls (snd (generate_insights_and_charts ag selected_metrics custom_text w))
                             - calls w) selected_metrics)
        \<and> (fst (generate_insights_and_charts ag selected_metrics custom_text w) = Inr () \<longrightarrow>
             calls (snd (generate_insights_and_charts ag selected_metrics custom_text w)) - calls w
               = length selected_metrics)
        \<and> (\<forall>msg. fst (generate_insights_and_charts ag selected_metrics custom_text w) = Inl msg \<longrightarrow>
              calls w < calls (snd (generate_insights_and_charts ag selected_metrics custom_text w))
              \<and> ag (calls (snd (generate_insights_and_charts ag selected_metrics custom_text w)) - 1)
                    (''Explain: ''
                       @ selected_metrics
                           ! (calls (snd (generate_insights_and_charts ag selected_metrics
                                            custom_text w)) - calls w - 1)
                       @ ''. Context: '' @ custom_text @ ''. Keep it concise (5 lines).'')
                    ''gpt-3.5-turbo'' = Inl msg))"
  (is "?retry1 \<and> ?retry2 \<and> ?retry3 \<and> ?retry4 \<and> ?retry5 \<and> ?ask \<and> ?single \<and> ?podcast
       \<and> ?full \<and> ?all1 \<and> ?all2 \<and> ?daily1 \<and> ?daily2 \<and> ?daily3 \<and> ?sheet2")
proof -
  note retry = ask_with_retry_cases [of ag p w]
  have r1: ?retry1 by (rule retry [THEN conjunct1])
  have r2: ?retry2 by (rule retry [THEN conjunct2, THEN conjunct1])
  have r3: ?retry3 by (rule retry [THEN conjunct2, THEN conjunct2, THEN conjunct1])
  have r4: ?retry4
    by (rule retry [THEN conjunct2, THEN conjunct2, THEN conjunct2, THEN conjunct1])
  have r5: ?retry5
    by (rule retry [THEN conjunct2, THEN conjunct2, THEN conjunct2, THEN conjunct2])
  have a: ?ask
  proof (intro impI conjI allI)
    assume q: "user_q \<noteq> []"
    show "agent_events (events (ask_ai ag user_q w)) =
          agent_events (events w)
            @ (if \<exists>msg. ag (calls w) (analyst_prompt user_q) ''gpt-4'' = Inl msg
                         \<and> sublist ''Rate limit'' msg
               then [Submit (analyst_prompt user_q) ''gpt-4'', Sleep 20,
                     Submit (analyst_prompt user_q) ''gpt-4'']
               else [Submit (analyst_prompt user_q) ''gpt-4''])"
      by (rule ask_ai_agent_events(1) [OF q])
    fix msg
    assume "fst (ask_with_retry ag (analyst_prompt user_q)
                         (emit (St_info ''Using GPT-4...'') w)) = Inl msg"
    with q show "last (events (ask_ai ag user_q w)) = St_error ''Smart Q&A Error: '' (Failure msg)"
      by (rule ask_ai_agent_events(2))
  qed
  have s: ?single
  proof (intro impI conjI)
    assume l: "map_of insight_options selected_insight = Some prompt"
    show "calls (generate_insight ag selected_insight w) = calls w + 1"
      by (rule generate_insight_trace(1) [OF l])
    show "events (generate_insight ag selected_insight w) =
            events w
              @ [St_info ''Generating insight with GPT-4...'',
                 Submit (''Analyze the dataset and return this insight:'' @ nl @ nl @ prompt)
                   ''gpt-4'']
              @ (case ag (calls w)
                        (''Analyze the dataset and return this insight:'' @ nl @ nl @ prompt)
                        ''gpt-4'' of
                   Inl msg \<Rightarrow> [St_error ''Error: '' (Failure msg)]
                 | Inr answer \<Rightarrow> [St_text_area answer, St_download_button answer ''Insight.txt''])"
      by (rule generate_insight_trace(2) [OF l])
  qed
  have pc: ?podcast
  proof (intro impI conjI allI)
    assume l: "last_insight (state w) = Some insight_text"
    show "calls (generate_podcast ag sv w) = calls w + 1"
      by (rule generate_podcast_trace(1) [OF l])
    show "agent_events (events (generate_podcast ag sv w)) =
            agent_events (events w)
              @ [Submit (''Convert this into a 60-second podcast summary:'' @ nl @ nl @ insight_text)
                   ''gpt-4'']"
      by (rule generate_podcast_trace(2) [OF l])
    fix msg
    assume "ag (calls w)
              (''Convert this into a 60-second podcast summary:'' @ nl @ nl @ insight_text)
              ''gpt-4'' = Inl msg"
    with l show "events (generate_podcast ag sv w) =
                events w
                  @ [Submit (''Convert this into a 60-second podcast summary:'' @ nl @ nl
                               @ insight_text) ''gpt-4'',
                     St_error ''Podcast error: '' (Failure msg)]"
      by (rule generate_podcast_trace(3))
  qed
  have f: ?full
  proof (intro impI conjI allI)
    assume l: "all_insights (state w) = Some summary"
    show "calls (generate_full_podcast ag sv w) = calls w + 1"
      by (rule generate_full_podcast_trace(1) [OF l])
    show "agent_events (events (generate_full_podcast ag sv w)) =
            agent_events (events w)
              @ [Submit (''Summarize all these insights into a 2-minute podcast:'' @ nl @ nl
                           @ summary) ''gpt-4'']"
      by (rule generate_full_podcast_trace(2) [OF l])
    fix msg
    assume "ag (calls w)
              (''Summarize all these insights into a 2-minute podcast:'' @ nl @ nl @ summary)
              ''gpt-4'' = Inl msg"
    with l show "events (generate_full_podcast ag sv w) =
                events w
                  @ [Submit (''Summarize all these insights into a 2-minute podcast:'' @ nl @ nl
                               @ summary) ''gpt-4'',
                     St_error ''Podcast error: '' (Failure msg)]"
      by (rule generate_full_podcast_trace(3))
  qed
  have g1: ?all1
    by (rule generate_all_agent_events(1))
  have g2: ?all2
    by (rule generate_all_agent_events(2))
  have d1: ?daily1
    by (rule daily_auto_email_trace(1))
  have d2: ?daily2
    by (rule daily_auto_email_trace(2))
  have d3: ?daily3
  proof (intro allI impI)
    fix msg
    assume "write_text sv ''auto_insights.txt'' (fst (daily_auto_email_summary ag w)) = None
             \<and> ag (calls w + 11)
                  (''Summarize the following into a podcast-style audio summary:'' @ nl @ nl
                     @ fst (daily_auto_email_summary ag w)) ''gpt-4'' = Inl msg"
    then show "last (events (daily_auto_email ag sv env w)) =
            St_error ([CHR 0xE2, CHR 0x9D, CHR 0x8C] @ '' Auto email error: '') (Failure msg)"
      by (rule daily_auto_email_trace(3))
  qed
  have s2: ?sheet2
  proof
    assume "selected_metrics \<noteq> []"
    then show "calls w \<le> calls (snd (generate_insights_and_charts ag selected_metrics custom_text w))
        \<and> calls (snd (generate_insights_and_charts ag selected_metrics custom_text w)) - calls w
            \<le> length selected_metrics
        \<and> events (snd (generate_insights_and_charts ag selected_metrics custom_text w)) =
            events w
              @ map (\<lambda>m. Submit (''Explain: '' @ m @ ''. Context: '' @ custom_text
                                   @ ''. Keep it concise (5 lines).'') ''gpt-3.5-turbo'')
                    (take (calls (snd (generate_insights_and_charts ag selected_metrics custom_text w))
                             - calls w) selected_metrics)
        \<and> (fst (generate_insights_and_charts ag selected_metrics custom_text w) = Inr () \<longrightarrow>
             calls (snd (generate_insights_and_charts ag selected_metrics custom_text w)) - calls w
               = length selected_metrics)
        \<and> (\<forall>msg. fst (generate_insights_and_charts ag selected_metrics custom_text w) = Inl msg \<longrightarrow>
              calls w < calls (snd (generate_insights_and_charts ag selected_metrics custom_text w))
              \<and> ag (calls (snd (generate_insights_and_charts ag selected_metrics custom_text w)) - 1)
                    (''Explain: ''
                       @ selected_metrics
                           ! (calls (snd (generate_insights_and_charts ag selected_metrics
                                            custom_text w)) - calls w - 1)
                       @ ''. Context: '' @ custom_text @ ''. Keep it concise (5 lines).'')
                    ''gpt-3.5-turbo'' = Inl msg)"
      by (rule generate_insights_and_charts_trace)
  qed
  show ?thesis
    by (intro conjI) (fact r1 r2 r3 r4 r5 a s pc f g1 g2 d1 d2 d3 s2)+
qed

text \<open>
  An agent that is rate-limited twice, asked a free question: one retry after the
  sleep, then the second failure comes out. An agent that is rate-limited once, asked
  for a catalog insight: one submission, the failure is shown, nothing is retried.
\<close>

theorem rate_limit_retry_witness:
  "calls (snd (ask_with_retry limited_twice ''How many rows?'' world0)) = calls world0 + 2
   \<and> events (snd (ask_with_retry limited_twice ''How many rows?'' world0))
       = [Submit ''How many rows?'' ''gpt-4'',
          St_warning ''Rate limit hit. Waiting 20 seconds...'', Sleep 20,
          Submit ''How many rows?'' ''gpt-4'']
   \<and> fst (ask_with_retry limited_twice ''How many rows?'' world0) = Inl ''Rate limit reached again''
   \<and> calls (generate_insight limited_once ''2. Employees with 1 completion'' world0) = 1
   \<and> events (generate_insight limited_once ''2. Employees with 1 completion'' world0)
       = [St_info ''Generating insight with GPT-4...'',
          Submit (''Analyze the dataset and return this insight:'' @ nl @ nl
                    @ ''Number of employees who have completed exactly 1 course.'') ''gpt-4'',
          St_error ''Error: '' (Failure ''Rate limit reached for gpt-4'')]"
proof -
  note twice = rate_limit_retry_at_most_once [where ag = limited_twice
      and p = "''How many rows?''" and w = world0]
  note once = rate_limit_retry_at_most_once [where ag = limited_once and w = world0
      and selected_insight = "''2. Employees with 1 completion''"
      and prompt = "''Number of employees who have completed exactly 1 course.''"]
  have first: "limited_twice (calls world0) ''How many rows?'' ''gpt-4''
                 = Inl ''Rate limit reached for gpt-4''"
    by (simp add: limited_twice_def world0_def)
  have signature: "sublist ''Rate limit'' ''Rate limit reached for gpt-4''"
    by (simp add: sublist_code(3))
  have "\<exists>msg. limited_twice (calls world0) ''How many rows?'' ''gpt-4'' = Inl msg
            \<and> sublist ''Rate limit'' msg"
    using first signature by (intro exI conjI)
  with twice [THEN conjunct2, THEN conjunct1]
  have two: "calls (snd (ask_with_retry limited_twice ''How many rows?'' world0)) = calls world0 + 2"
    by (rule iffD2)
  with twice [THEN conjunct2, THEN conjunct2, THEN conjunct1]
  have retried: "events (snd (ask_with_retry limited_twice ''How many rows?'' world0))
          = events world0 @ [Submit ''How many rows?'' ''gpt-4'',
              St_warning ''Rate limit hit. Waiting 20 seconds...'', Sleep 20,
              Submit ''How many rows?'' ''gpt-4'']"
    and outcome: "fst (ask_with_retry limited_twice ''How many rows?'' world0)
          = limited_twice (calls world0 + 1) ''How many rows?'' ''gpt-4''"
    by simp_all
  have label2: "map_of insight_options ''2. Employees with 1 completion''
     = Some ''Number of employees who have completed exactly 1 course.''"
    by (simp add: insight_options_def)
  from once [THEN conjunct2, THEN conjunct2, THEN conjunct2, THEN conjunct2, THEN conjunct2,
      THEN conjunct2, THEN conjunct1, rule_format, OF label2]
  have single: "calls (generate_insight limited_once ''2. Employees with 1 completion'' world0)
        = calls world0 + 1"
    and shown: "events (generate_insight limited_once ''2. Employees with 1 completion'' world0) =
        events world0
          @ [St_info ''Generating insight with GPT-4...'',
             Submit (''Analyze the dataset and return this insight:'' @ nl @ nl
                       @ ''Number of employees who have completed exactly 1 course.'') ''gpt-4'']
          @ (case limited_once (calls world0)
                    (''Analyze the dataset and return this insight:'' @ nl @ nl
                       @ ''Number of employees who have completed exactly 1 course.'')
                    ''gpt-4'' of
               Inl msg \<Rightarrow> [St_error ''Error: '' (Failure msg)]
             | Inr answer \<Rightarrow> [St_text_area answer, St_download_button answer ''Insight.txt''])"
    by (rule conjunct1, rule conjunct2)
  have w0: "calls world0 = 0" "events world0 = []"
    by (simp_all add: world0_def)
  from two retried outcome single shown show ?thesis
    by (simp add: w0 limited_twice_def limited_once_def)
qed

subsection \<open>Counting values\<close>

lemma set_dropna: "set (dropna col) = {v. Some v \<in> set col}"
  by (induction col rule: dropna.induct) auto

lemma count_dropna: "count_list (dropna col) v = count_list col (Some v)"
  by (induction col rule: dropna.induct) auto

lemma set_unique: "set (unique xs) = set xs"
  by (induction xs rule: unique.induct) auto

lemma distinct_unique: "distinct (unique xs)"
  by (induction xs rule: unique.induct) (auto simp add: set_unique)

lemma length_unique: "length (unique xs) = card (set xs)"
  using distinct_card [OF distinct_unique, of xs] by (simp add: set_unique)

lemma value_counts_values:
  "map snd (value_counts col) = map (\<lambda>v. count_list col (Some v)) (map fst (value_counts col))"
proof -
  have "\<forall>e \<in> set (value_counts col). snd e = count_list col (Some (fst e))"
    by (auto simp add: value_counts_def Let_def count_dropna)
  then show ?thesis by simp
qed

lemma entry_of_value_counts:
  assumes "(v, n) \<in> set (value_counts col)"
  shows "n = count_list col (Some v)"
  using assms by (auto simp add: value_counts_def Let_def count_dropna)

lemma distinct_map_sort_key: "distinct (map f (sort_key k xs)) = distinct (map f xs)"
  by (simp add: distinct_map)

lemma distinct_value_counts: "distinct (map fst (value_counts col))"
  by (simp add: value_counts_def Let_def distinct_map_sort_key comp_def distinct_unique)

lemma set_value_counts: "fst ` set (value_counts col) = {v. Some v \<in> set col}"
  by (simp add: value_counts_def Let_def image_image set_unique set_dropna)

lemma length_value_counts: "length (value_counts col) = card {v. Some v \<in> set col}"
  by (simp add: value_counts_def Let_def length_unique set_dropna)

lemma sorted_value_counts: "sorted (map (\<lambda>(v, c). - int c) (value_counts col))"
  by (simp add: value_counts_def Let_def)

lemma descending_value_counts: "sorted_wrt (\<lambda>a b. snd b \<le> snd a) (value_counts col)"
  using sorted_value_counts [of col] by (simp add: sorted_map split_def)

text \<open>After \<open>value_counts\<close> the largest counts come first, so \<open>nlargest\<close> is a prefix.\<close>

lemma nlargest_value_counts: "nlargest n (value_counts col) = take n (value_counts col)"
  by (simp add: nlargest_def sort_key_id_if_sorted sorted_value_counts)

lemma take_keeps_largest:
  assumes sorted: "sorted_wrt (\<lambda>a b. snd b \<le> snd a) xs"
    and distinct: "distinct (map fst xs)"
    and kept: "(v, n) \<in> set (take k xs)"
    and other: "(v', n') \<in> set xs"
    and dropped: "v' \<notin> fst ` set (take k xs)"
  shows "n' \<le> n"
proof -
  have "(v', n') \<in> set (take k xs) \<union> set (drop k xs)"
    using other by (metis append_take_drop_id set_append)
  moreover have "(v', n') \<notin> set (take k xs)"
    using dropped by force
  ultimately have late: "(v', n') \<in> set (drop k xs)"
    by simp
  have "sorted_wrt (\<lambda>a b. snd b \<le> snd a) (take k xs @ drop k xs)"
    using sorted by simp
  then have "\<forall>a \<in> set (take k xs). \<forall>b \<in> set (drop k xs). snd b \<le> snd a"
    unfolding sorted_wrt_append by blast
  with kept late show ?thesis by force
qed

subsection \<open>Top and bottom courses\<close>

text \<open>
  What the two metrics count is the rows of each course, with or without a completion
  timestamp.
\<close>

lemma top5_counts_rows:
  "map snd (top5_courses df)
     = map (\<lambda>c. enrolled_count df c + completion_count df c) (map fst (top5_courses df))"
proof -
  have rows: "count_list (map course_name df) (Some c) = enrolled_count df c + completion_count df c"
    for c
    by (induction df) (auto simp add: enrolled_count_def completion_count_def)
  have "map snd (take 5 (value_counts (map course_name df)))
          = take 5 (map snd (value_counts (map course_name df)))"
    by (simp add: take_map)
  also have "\<dots> = take 5 (map (\<lambda>v. count_list (map course_name df) (Some v))
                        (map fst (value_counts (map course_name df))))"
    by (simp only: value_counts_values [of "map course_name df"])
  also have "\<dots> = map (\<lambda>c. enrolled_count df c + completion_count df c)
                    (map fst (take 5 (value_counts (map course_name df))))"
    by (simp add: take_map rows)
  finally show ?thesis
    by (simp add: top5_courses_def nlargest_value_counts)
qed

text \<open>
  C5. On a table with two open enrolments in "Python Basics" (no completion at all) and
  one completed enrolment in "SQL", the Top 5 metric ranks "Python Basics" first with
  the count 2 and the Bottom 5 metric reports it with 2 as well, although the course has
  no completion; "SQL", with its one completion, comes second in the top list.
\<close>

theorem top5_counts_open_enrolments:
  "metric_chain three_rows ''Top 5 courses by completion''
     = Continue (Some [(Name ''Python Basics'', 2), (Name ''SQL'', 1)])
   \<and> metric_chain three_rows ''Bottom 5 courses by completion''
     = Continue (Some [(Name ''SQL'', 1), (Name ''Python Basics'', 2)])
   \<and> top5_courses three_rows = [(''Python Basics'', 2), (''SQL'', 1)]
   \<and> bottom5_courses three_rows = [(''SQL'', 1), (''Python Basics'', 2)]
   \<and> completion_count three_rows ''Python Basics'' = 0
   \<and> completion_count three_rows ''SQL'' = 1"
  by code_simp

subsection \<open>Currently enrolled\<close>

lemma currently_enrolled_take:
  "currently_enrolled df = take 5 (value_counts (open_rows df))"
  by (simp add: currently_enrolled_def nlargest_value_counts open_rows_def)

lemma enrolled_col:
  "count_list (map course_name (filter (\<lambda>r. course_completion_date r = None) df)) (Some c)
     = enrolled_count df c"
  by (induction df) (auto simp add: enrolled_count_def)

lemma enrolled_set:
  "{v. Some v \<in> set (map course_name (filter (\<lambda>r. course_completion_date r = None) df))}
     = {c. 0 < enrolled_count df c}"
  by (auto simp add: enrolled_count_def filter_empty_conv image_iff)

text \<open>
  C6. The Currently Enrolled metric counts, for each course, the rows with that course
  name and no completion timestamp: every kept course carries exactly that count; the
  kept courses are distinct, each has at least one such row, there are five of them (or
  all, when fewer courses have such rows), in descending order of count, and no course
  left out has more such rows than a kept one. Registration timestamps play no part: the
  result is the same whatever they are replaced by. A row with a completion timestamp
  changes nothing; a row without one adds one to its course's count.
\<close>

theorem currently_enrolled_null_completion_top5:
  "map snd (currently_enrolled df) = map (enrolled_count df) (map fst (currently_enrolled df))
   \<and> distinct (map fst (currently_enrolled df))
   \<and> length (currently_enrolled df) = min 5 (card {c. 0 < enrolled_count df c})
   \<and> sorted (rev (map snd (currently_enrolled df)))
   \<and> (\<forall>c n. 0 < enrolled_count df c \<and> c \<notin> set (map fst (currently_enrolled df))
             \<and> n \<in> set (map snd (currently_enrolled df))
         \<longrightarrow> enrolled_count df c \<le> n)
   \<and> (\<forall>c \<in> set (map fst (currently_enrolled df)). 0 < enrolled_count df c)
   \<and> currently_enrolled (map (\<lambda>r. r\<lparr>registration_date := reg r\<rparr>) df) = currently_enrolled df
   \<and> (course_completion_date r \<noteq> None \<longrightarrow>
        currently_enrolled (before @ r # after) = currently_enrolled (before @ after))
   \<and> (course_completion_date r = None \<and> course_name r = Some c \<longrightarrow>
        enrolled_count (before @ r # after) c = Suc (enrolled_count (before @ after) c))
   \<and> metric_chain df ''Currently Enrolled'' = Continue (Some (named (currently_enrolled df)))"
proof -
  let ?vc = "value_counts (open_rows df)"
  have chain: "metric_chain df ''Currently Enrolled''
                 = Continue (Some (named (currently_enrolled df)))"
    by (simp add: metric_chain_def)
  have counts: "count_list (open_rows df) (Some c) = enrolled_count df c" for c
    by (simp add: open_rows_def enrolled_col)
  have courses: "{v. Some v \<in> set (open_rows df)} = {c. 0 < enrolled_count df c}"
    unfolding open_rows_def by (rule enrolled_set)
  have counted: "map snd (currently_enrolled df)
                  = map (enrolled_count df) (map fst (currently_enrolled df))"
  proof -
    have "map snd (take 5 ?vc) = take 5 (map snd ?vc)"
      by (simp add: take_map)
    also have "\<dots> = take 5 (map (\<lambda>v. count_list (open_rows df) (Some v)) (map fst ?vc))"
      by (simp only: value_counts_values [of "open_rows df"])
    also have "\<dots> = map (enrolled_count df) (map fst (take 5 ?vc))"
      by (simp add: take_map counts)
    finally show ?thesis by (simp add: currently_enrolled_take)
  qed
  have once: "distinct (map fst (currently_enrolled df))"
    using distinct_value_counts [of "open_rows df"]
    by (simp add: currently_enrolled_take take_map [symmetric])
  have size: "length (currently_enrolled df) = min 5 (card {c. 0 < enrolled_count df c})"
    by (simp add: currently_enrolled_take length_value_counts courses min.commute)
  have descending: "sorted (rev (map snd (currently_enrolled df)))"
  proof -
    have "sorted_wrt (\<lambda>a b. snd b \<le> snd a) (take 5 ?vc)"
      using descending_value_counts by (rule sorted_wrt_take)
    then show ?thesis
      by (simp add: currently_enrolled_take sorted_wrt_rev sorted_wrt_map)
  qed
  have largest: "enrolled_count df c \<le> n"
    if "0 < enrolled_count df c" and "c \<notin> set (map fst (currently_enrolled df))"
      and "n \<in> set (map snd (currently_enrolled df))" for c n
  proof -
    from that(3) obtain v where kept: "(v, n) \<in> set (take 5 ?vc)"
      by (auto simp add: currently_enrolled_take)
    from that(1) have "c \<in> fst ` set ?vc"
      unfolding set_value_counts courses by simp
    then obtain m where other: "(c, m) \<in> set ?vc"
      by auto
    then have m: "m = enrolled_count df c"
      using entry_of_value_counts [of c m "open_rows df"] by (simp add: counts)
    have "c \<notin> fst ` set (take 5 ?vc)"
      using that(2) by (simp add: currently_enrolled_take)
    with descending_value_counts distinct_value_counts kept other have "m \<le> n"
      by (rule take_keeps_largest)
    with m show ?thesis by simp
  qed
  have positive: "\<forall>c \<in> set (map fst (currently_enrolled df)). 0 < enrolled_count df c"
  proof
    fix c assume "c \<in> set (map fst (currently_enrolled df))"
    then have "c \<in> fst ` set ?vc"
      by (auto simp add: currently_enrolled_take dest: in_set_takeD)
    then show "0 < enrolled_count df c"
      unfolding set_value_counts courses by simp
  qed
  have registration:
    "currently_enrolled (map (\<lambda>r. r\<lparr>registration_date := reg r\<rparr>) df) = currently_enrolled df"
    by (simp add: currently_enrolled_def filter_map comp_def)
  have completed: "course_completion_date r \<noteq> None \<Longrightarrow>
        currently_enrolled (before @ r # after) = currently_enrolled (before @ after)"
    by (auto simp add: currently_enrolled_def)
  have open_row: "course_completion_date r = None \<and> course_name r = Some c \<Longrightarrow>
        enrolled_count (before @ r # after) c = Suc (enrolled_count (before @ after) c)"
    by (simp add: enrolled_count_def)
  from counted once size descending largest positive registration completed open_row chain
  show ?thesis by blast
qed

text \<open>
  On the table of three rows: the completed "SQL" row is left out and the two open
  "Python Basics" rows are counted, also when every registration timestamp is removed.
\<close>

theorem currently_enrolled_witness:
  "course_completion_date (enrolment ''SQL'' (on_day 2024 1 20) (on_day 2024 3 9)) \<noteq> None
   \<and> currently_enrolled three_rows = currently_enrolled (take 2 three_rows)
   \<and> currently_enrolled three_rows = [(''Python Basics'', 2)]
   \<and> map (enrolled_count three_rows) (map fst (currently_enrolled three_rows)) = [2]
   \<and> currently_enrolled (map (\<lambda>r. r\<lparr>registration_date := None\<rparr>) three_rows)
        = [(''Python Basics'', 2)]"
proof -
  let ?sql = "enrolment ''SQL'' (on_day 2024 1 20) (on_day 2024 3 9)"
  note top5 = currently_enrolled_null_completion_top5
    [of three_rows "\<lambda>r. None" ?sql "take 2 three_rows" "[]" "''SQL''"]
  have completed: "course_completion_date ?sql \<noteq> None"
    by (simp add: enrolment_def on_day_def)
  have split_rows: "take 2 three_rows @ ?sql # [] = three_rows"
    by (simp add: three_rows_def)
  have kept: "currently_enrolled three_rows = [(''Python Basics'', 2)]"
    by code_simp
  from top5 completed have "currently_enrolled (take 2 three_rows @ ?sql # [])
      = currently_enrolled (take 2 three_rows @ [])"
    by blast
  then have excluded: "currently_enrolled three_rows = currently_enrolled (take 2 three_rows)"
    by (simp only: split_rows append_Nil2)
  from top5 have "map snd (currently_enrolled three_rows)
      = map (enrolled_count three_rows) (map fst (currently_enrolled three_rows))"
    by blast
  then have counted: "map (enrolled_count three_rows) (map fst (currently_enrolled three_rows)) = [2]"
    by (simp add: kept)
  from top5 have "currently_enrolled (map (\<lambda>r. r\<lparr>registration_date := None\<rparr>) three_rows)
      = currently_enrolled three_rows"
    by blast
  then have unregistered:
    "currently_enrolled (map (\<lambda>r. r\<lparr>registration_date := None\<rparr>) three_rows)
       = [(''Python Basics'', 2)]"
    by (simp only: kept)
  from completed excluded kept counted unregistered show ?thesis
    by (intro conjI)
qed

subsection \<open>Monthly counts\<close>

lemma count_in_month:
  "count_list (map (map_option to_period_M) col) (Some p) = rows_in_month col p"
proof (induction col)
  case Nil
  show ?case by (simp add: rows_in_month_def)
next
  case (Cons c col)
  then show ?case
    by (cases c; cases p) (auto simp add: rows_in_month_def to_period_M_def)
qed

lemma month_listed:
  "Some p \<in> set (map (map_option to_period_M) col) \<longleftrightarrow> 0 < rows_in_month col p"
  using count_list_0_iff [of "map (map_option to_period_M) col" "Some p"]
  by (auto simp add: count_in_month)

text \<open>
  The series of \<open>to_period("M").value_counts().sort_index()\<close>: the months in which the
  column has rows, each once, in ascending order of year and month, with the number of
  rows of that month. Months without rows are not in the series.
\<close>

lemma period_counts_months:
  "sorted_wrt (\<lambda>p q. fst p < fst q \<or> (fst p = fst q \<and> snd p < snd q))
     (map fst (period_counts col))"
  "map snd (period_counts col) = map (rows_in_month col) (map fst (period_counts col))"
  "set (map fst (period_counts col)) = {p. 0 < rows_in_month col p}"
proof -
  let ?vc = "value_counts (map (map_option to_period_M) col)"
  have "sorted (map fst (period_counts col))"
    by (simp add: period_counts_def sort_index_def)
  moreover have "distinct (map fst (period_counts col))"
    by (simp add: period_counts_def sort_index_def distinct_map_sort_key distinct_value_counts)
  ultimately have "sorted_wrt (<) (map fst (period_counts col))"
    by (simp add: strict_sorted_iff)
  then show "sorted_wrt (\<lambda>p q. fst p < fst q \<or> (fst p = fst q \<and> snd p < snd q))
     (map fst (period_counts col))"
    by (rule sorted_wrt_mono_rel [rotated]) (auto simp add: less_prod_def)
  have "\<forall>e \<in> set (period_counts col). snd e = rows_in_month col (fst e)"
    using entry_of_value_counts [of _ _ "map (map_option to_period_M) col"]
    by (auto simp add: period_counts_def sort_index_def count_in_month)
  then show "map snd (period_counts col) = map (rows_in_month col) (map fst (period_counts col))"
    by simp
  show "set (map fst (period_counts col)) = {p. 0 < rows_in_month col p}"
    using set_value_counts [of "map (map_option to_period_M) col"] month_listed [of _ col]
    by (simp add: period_counts_def sort_index_def)
qed


lemma period_series:
  "map fst (by_period (map (\<lambda>(p, c). (p, int c)) (period_counts col))) =
     map (\<lambda>p. Month_period (fst p) (snd p)) (map fst (period_counts col))"
  "map snd (by_period (map (\<lambda>(p, c). (p, int c)) (period_counts col))) =
     map (\<lambda>p. int (rows_in_month col p)) (map fst (period_counts col))"
proof -
  show "map fst (by_period (map (\<lambda>(p, c). (p, int c)) (period_counts col))) =
     map (\<lambda>p. Month_period (fst p) (snd p)) (map fst (period_counts col))"
    by (simp add: by_period_def split_def comp_def)
  have "map snd (by_period (map (\<lambda>(p, c). (p, int c)) (period_counts col)))
          = map int (map snd (period_counts col))"
    by (simp add: by_period_def split_def comp_def)
  also have "\<dots> = map int (map (rows_in_month col) (map fst (period_counts col)))"
    by (simp only: period_counts_months(2) [of col])
  finally show "map snd (by_period (map (\<lambda>(p, c). (p, int c)) (period_counts col))) =
     map (\<lambda>p. int (rows_in_month col p)) (map fst (period_counts col))"
    by (simp add: comp_def)
qed

subsection \<open>The chart renderer: styles and unknown metrics\<close>

lemma metric_chain_unknown: "metric \<notin> set metrics \<Longrightarrow> metric_chain df metric = Continue None"
  by (simp add: metrics_def metric_chain_def)

text \<open>
  C4, as stated, fails in "aligned": on the table of three rows the line of the
  registrations is drawn over January and February 2024 and the line of the completions
  over March 2024 alone; the two series share no month and differ in length.
\<close>

theorem dual_trend_not_aligned_counterexample:
  "render_chart accepting_plotter three_rows
     ''Number of employees registered vs completed (monthly trend)'' ''Bar'' =
     (Inr (),
      [Ax_plot [Month_period 2024 1, Month_period 2024 2] [2, 1] ''Registered'',
       Ax_plot [Month_period 2024 3] [1] ''Completed'',
       Ax_legend])"
  by code_simp

text \<open>
  C4, amended. For the registered-versus-completed metric the outcome of \<open>render_chart\<close>
  is the same for every requested chart style (any string, the four styles among them),
  whatever the drawing library does: the style is ignored and the calls are a line
  labelled "Registered", a line labelled "Completed" and the legend, ending at the
  first call that raises. Each line is drawn over its own months: the months in which
  the column (registration date, completion date) has rows, in ascending order, each
  with the number of its rows. The two lists of months are not aligned with each
  other.
\<close>

theorem dual_trend_ignores_chart_style:
  "render_chart pl df ''Number of employees registered vs completed (monthly trend)'' chart_type =
     render_chart pl df ''Number of employees registered vs completed (monthly trend)''
       other_chart_type
   \<and> render_chart pl df ''Number of employees registered vs completed (monthly trend)'' chart_type =
     (case pl (Ax_plot
                 (map (\<lambda>p. Month_period (fst p) (snd p))
                    (map fst (period_counts (map registration_date df))))
                 (map (\<lambda>p. int (rows_in_month (map registration_date df) p))
                    (map fst (period_counts (map registration_date df))))
                 ''Registered'') of
        Some e \<Rightarrow> (Inl e, [])
      | None \<Rightarrow>
         (case pl (Ax_plot
                     (map (\<lambda>p. Month_period (fst p) (snd p))
                        (map fst (period_counts (map course_completion_date df))))
                     (map (\<lambda>p. int (rows_in_month (map course_completion_date df) p))
                        (map fst (period_counts (map course_completion_date df))))
                     ''Completed'') of
            Some e \<Rightarrow>
              (Inl e,
               [Ax_plot
                  (map (\<lambda>p. Month_period (fst p) (snd p))
                     (map fst (period_counts (map registration_date df))))
                  (map (\<lambda>p. int (rows_in_month (map registration_date df) p))
                     (map fst (period_counts (map registration_date df))))
                  ''Registered''])
          | None \<Rightarrow>
              (case pl Ax_legend of Some e \<Rightarrow> Inl e | None \<Rightarrow> Inr (),
               [Ax_plot
                  (map (\<lambda>p. Month_period (fst p) (snd p))
                     (map fst (period_counts (map registration_date df))))
                  (map (\<lambda>p. int (rows_in_month (map registration_date df) p))
                     (map fst (period_counts (map registration_date df))))
                  ''Registered'',
                Ax_plot
                  (map (\<lambda>p. Month_period (fst p) (snd p))
                     (map fst (period_counts (map course_completion_date df))))
                  (map (\<lambda>p. int (rows_in_month (map course_completion_date df) p))
                     (map fst (period_counts (map course_completion_date df))))
                  ''Completed'']
               @ (case pl Ax_legend of Some e \<Rightarrow> [] | None \<Rightarrow> [Ax_legend]))))
   \<and> sorted_wrt (\<lambda>p q. fst p < fst q \<or> (fst p = fst q \<and> snd p < snd q))
        (map fst (period_counts (map registration_date df)))
   \<and> set (map fst (period_counts (map registration_date df)))
        = {p. 0 < rows_in_month (map registration_date df) p}
   \<and> sorted_wrt (\<lambda>p q. fst p < fst q \<or> (fst p = fst q \<and> snd p < snd q))
        (map fst (period_counts (map course_completion_date df)))
   \<and> set (map fst (period_counts (map course_completion_date df)))
        = {p. 0 < rows_in_month (map course_completion_date df) p}"
  (is "?same \<and> ?calls \<and> ?reg_order \<and> ?reg_months \<and> ?done_order \<and> ?done_months")
proof -
  have dual: "metric_chain df ''Number of employees registered vs completed (monthly trend)'' =
      Dual (by_period (map (\<lambda>(p, c). (p, int c)) (period_counts (map registration_date df))))
           (by_period (map (\<lambda>(p, c). (p, int c)) (period_counts (map course_completion_date df))))"
    by (simp add: metric_chain_def Let_def)
  have drawn: "render_chart pl df ''Number of employees registered vs completed (monthly trend)''
        style =
      draw_dual pl
        (by_period (map (\<lambda>(p, c). (p, int c)) (period_counts (map registration_date df))))
        (by_period (map (\<lambda>(p, c). (p, int c)) (period_counts (map course_completion_date df))))"
    for style
    by (simp add: render_chart_def dual)
  have same: ?same
    by (simp add: drawn)
  have explicit: ?calls
    by (simp add: drawn draw_dual_def draw_then_def period_series split: option.split)
  have reg_order: ?reg_order and done_order: ?done_order
    by (rule period_counts_months(1))+
  have reg_months: ?reg_months and done_months: ?done_months
    by (rule period_counts_months(3))+
  show ?thesis
    by (intro conjI) (fact same explicit reg_order reg_months done_order done_months)+
qed

text \<open>
  On the table of three rows the Bar and the Pie requests give the same three calls.
\<close>

theorem dual_trend_witness:
  "render_chart accepting_plotter three_rows
     ''Number of employees registered vs completed (monthly trend)'' ''Pie'' =
     (Inr (),
      [Ax_plot [Month_period 2024 1, Month_period 2024 2] [2, 1] ''Registered'',
       Ax_plot [Month_period 2024 3] [1] ''Completed'',
       Ax_legend])"
proof -
  have bar: "render_chart accepting_plotter three_rows
     ''Number of employees registered vs completed (monthly trend)'' ''Bar'' =
     (Inr (),
      [Ax_plot [Month_period 2024 1, Month_period 2024 2] [2, 1] ''Registered'',
       Ax_plot [Month_period 2024 3] [1] ''Completed'',
       Ax_legend])"
    by code_simp
  from dual_trend_ignores_chart_style [of accepting_plotter three_rows "''Pie''" "''Bar''"]
  have "render_chart accepting_plotter three_rows
     ''Number of employees registered vs completed (monthly trend)'' ''Pie'' =
        render_chart accepting_plotter three_rows
     ''Number of employees registered vs completed (monthly trend)'' ''Bar''"
    by (rule conjunct1)
  with bar show ?thesis by simp
qed

text \<open>
  C10, as stated, fails when the style is not one of the four either: for the metric
  name "Completion by Country", which is not in the list, and the style "Scatter" the
  renderer returns without raising (and without drawing).
\<close>

theorem unknown_metric_unknown_style_counterexample:
  "''Completion by Country'' \<notin> set metrics
   \<and> render_chart accepting_plotter [] ''Completion by Country'' ''Scatter'' = (Inr (), [])"
  by (simp add: metrics_def render_chart_def metric_chain_def draw_data_def)

text \<open>
  C10, amended. For a metric name outside the list of nine, \<open>data\<close> is never bound:
  with the style Bar, Line or Pie the renderer raises \<open>UnboundLocalError\<close> before any call
  on the axes; with the style Table it raises it after \<open>ax.axis("off")\<close>, before any table
  is drawn; with any other style it returns, having drawn nothing. This holds whatever
  the drawing library would do.
\<close>

theorem unknown_metric_unbound_data:
  "metric \<notin> set metrics \<longrightarrow>
      (chart_type = ''Bar'' \<or> chart_type = ''Line'' \<or> chart_type = ''Pie'' \<longrightarrow>
         render_chart pl df metric chart_type = (Inl (UnboundLocalError ''data''), []))
    \<and> (chart_type = ''Table'' \<longrightarrow>
         render_chart pl df metric chart_type = (Inl (UnboundLocalError ''data''), [Axis_off]))
    \<and> (chart_type \<noteq> ''Bar'' \<and> chart_type \<noteq> ''Line'' \<and> chart_type \<noteq> ''Pie''
          \<and> chart_type \<noteq> ''Table'' \<longrightarrow>
         render_chart pl df metric chart_type = (Inr (), []))"
proof
  assume "metric \<notin> set metrics"
  then have unknown: "render_chart pl df metric chart_type = draw_data pl metric chart_type None"
    by (simp add: render_chart_def metric_chain_unknown)
  show "(chart_type = ''Bar'' \<or> chart_type = ''Line'' \<or> chart_type = ''Pie'' \<longrightarrow>
         render_chart pl df metric chart_type = (Inl (UnboundLocalError ''data''), []))
    \<and> (chart_type = ''Table'' \<longrightarrow>
         render_chart pl df metric chart_type = (Inl (UnboundLocalError ''data''), [Axis_off]))
    \<and> (chart_type \<noteq> ''Bar'' \<and> chart_type \<noteq> ''Line'' \<and> chart_type \<noteq> ''Pie''
          \<and> chart_type \<noteq> ''Table'' \<longrightarrow>
         render_chart pl df metric chart_type = (Inr (), []))"
    unfolding unknown by (auto simp add: draw_data_def)
qed

theorem unknown_metric_unbound_data_witness:
  "''Completion by Country'' \<notin> set metrics
   \<and> render_chart accepting_plotter [] ''Completion by Country'' ''Bar''
        = (Inl (UnboundLocalError ''data''), [])
   \<and> render_chart accepting_plotter [] ''Completion by Country'' ''Table''
        = (Inl (UnboundLocalError ''data''), [Axis_off])"
proof -
  have out: "''Completion by Country'' \<notin> set metrics"
    by (simp add: metrics_def)
  show ?thesis
    using unknown_metric_unbound_data [of "''Completion by Country''" "''Bar''" accepting_plotter "[]"]
      unknown_metric_unbound_data [of "''Completion by Country''" "''Table''" accepting_plotter "[]"]
      out
    by simp
qed

subsection \<open>First differences of a series\<close>

lemma length_diff_values: "length (diff_values vs) = length vs"
  by (cases vs) simp_all

lemma nth_diff_values:
  "k < length vs \<Longrightarrow>
     diff_values vs ! k = (if k = 0 then None else Some (vs ! k - vs ! (k - 1)))"
  by (cases vs; cases k) simp_all

lemma fillna_diff: "fillna 0 (diff s) = variance_spec s"
  by (rule nth_equalityI)
     (simp_all add: fillna_def diff_def variance_spec_def length_diff_values nth_diff_values)

subsection \<open>The variance metric\<close>

text \<open>
  What the variance metric computes, for every table: over the months that have at
  least one completion, in ascending order, the number of completions of the month
  minus that of the month listed before it (zero for the first month listed).
\<close>

lemma completion_variance_first_difference:
  "completion_variance df =
     variance_spec (map (\<lambda>p. (p, int (rows_in_month (map course_completion_date df) p)))
                      (map fst (period_counts (map course_completion_date df))))"
proof -
  let ?pc = "period_counts (map course_completion_date df)"
  have "\<forall>e \<in> set ?pc. snd e = rows_in_month (map course_completion_date df) (fst e)"
    using period_counts_months(2) [of "map course_completion_date df"]
    by (metis (no_types, lifting) in_set_conv_nth length_map nth_map)
  then have same: "map (\<lambda>(p, c). (p, int c)) ?pc
      = map (\<lambda>p. (p, int (rows_in_month (map course_completion_date df) p))) (map fst ?pc)"
    by (auto simp add: split_def)
  have "completion_variance df = variance_spec (map (\<lambda>(p, c). (p, int c)) ?pc)"
    by (simp add: completion_variance_def Let_def fillna_diff)
  then show ?thesis
    by (simp only: same)
qed


subsection \<open>Email delivery\<close>

text \<open>\<open>split_on\<close> is Python's \<open>str.split\<close> on one character: joining gives the string back, and no piece contains the separator.\<close>

lemma split_on_nonempty: "split_on c s \<noteq> []"
  by (induction s) (auto split: list.split)

lemma join_split_on: "join [c] (split_on c s) = s"
proof (induction s)
  case Nil
  show ?case by simp
next
  case (Cons x s)
  then show ?case
    using split_on_nonempty [of c s]
    by (cases "split_on c s"; cases "tl (split_on c s)") auto
qed

lemma split_on_pieces: "piece \<in> set (split_on c s) \<Longrightarrow> c \<notin> set piece"
  by (induction s arbitrary: piece) (auto split: list.splits if_splits)

lemma smtp_session_first_failure:
  assumes "h \<noteq> []"
  shows "smtp_session env (Some h) port sender password recipients msg =
    (case first_failure [smtp_connect env (Some h) port, smtp_quit env, smtp_starttls env,
                         smtp_login env sender password,
                         smtp_sendmail env sender recipients msg] of
       None \<Rightarrow> Inr ()
     | Some e \<Rightarrow> Inl e)"
  using assms
  by (cases "smtp_connect env (Some h) port"; cases "smtp_quit env"; cases "smtp_starttls env";
      cases "smtp_login env sender password"; cases "smtp_sendmail env sender recipients msg")
     (simp_all add: smtp_session_def bind_exc_def raise_if_def)

lemma smtp_session_no_host:
  "host = None \<or> host = Some [] \<Longrightarrow>
   smtp_session env host port sender password recipients msg
     = Inl (Failure ''please run connect() first'')"
  by (auto simp add: smtp_session_def)

lemma attach_if_attached:
  "attached env mk path parts \<Longrightarrow> attach_if env mk path = Inr parts"
  by (auto simp add: attached_def attach_if_def bind_exc_def split: option.splits sum.splits if_splits)

lemma attach_if_unreadable:
  "path = Some f \<Longrightarrow> f \<noteq> [] \<Longrightarrow> open_rb env f = Inl e \<Longrightarrow> attach_if env mk path = Inl e"
  by (simp add: attach_if_def bind_exc_def)


text \<open>
  C8. Both delivery functions return a boolean and never raise: the result is \<open>True\<close>
  with nothing shown, or \<open>False\<close> with exactly one "Email Error" message that carries the
  exception of the step that failed. Step by step, with the arguments the functions
  really pass:
  \<^item> missing recipients, a missing port, a port that is not a number: \<open>False\<close> with the
    interpreter's exception;
  \<^item> an attachment that was asked for and cannot be read: \<open>False\<close> with the exception
    of \<open>open\<close>;
  \<^item> a missing or empty host: \<open>False\<close> with "please run connect() first";
  \<^item> otherwise the transport runs with the configured host, the parsed port, the
    configured user and password, the recipients and the message built from the
    arguments and the attachments: the first of connect, QUIT, STARTTLS, login and send
    that raises gives \<open>False\<close> with its exception (QUIT, on leaving the connection,
    replaces an exception of the steps before it); \<open>True\<close> exactly when none raises.
  A missing user or password reaches the transport as \<open>None\<close> and fails there when the
  relay rejects it.
\<close>

theorem email_failures_become_false:
  "(send_email_with_attachments env subject body audio_path pdf_path = (Inr True, [])
      \<or> (\<exists>e. send_email_with_attachments env subject body audio_path pdf_path
                = (Inr False, [St_error ''Email Error: '' e])))
   \<and> (getenv env ''EMAIL_RECEIVERS'' = None \<longrightarrow>
        send_email_with_attachments env subject body audio_path pdf_path
          = (Inr False, [St_error ''Email Error: '' (AttributeError ''split'')]))
   \<and> (getenv env ''EMAIL_RECEIVERS'' = Some rs \<and> getenv env ''EMAIL_PORT'' = None \<longrightarrow>
        send_email_with_attachments env subject body audio_path pdf_path
          = (Inr False, [St_error ''Email Error: '' (TypeError ''int'')]))
   \<and> (getenv env ''EMAIL_RECEIVERS'' = Some rs \<and> getenv env ''EMAIL_PORT'' = Some ps
        \<and> py_int env ps = None \<longrightarrow>
        send_email_with_attachments env subject body audio_path pdf_path
          = (Inr False, [St_error ''Email Error: '' (ValueError ps)]))
   \<and> (getenv env ''EMAIL_RECEIVERS'' = Some rs \<and> getenv env ''EMAIL_PORT'' = Some ps
        \<and> py_int env ps = Some port
        \<and> audio_path = Some f \<and> f \<noteq> [] \<and> open_rb env f = Inl e \<longrightarrow>
        send_email_with_attachments env subject body audio_path pdf_path
          = (Inr False, [St_error ''Email Error: '' e]))
   \<and> (getenv env ''EMAIL_RECEIVERS'' = Some rs \<and> getenv env ''EMAIL_PORT'' = Some ps
        \<and> py_int env ps = Some port \<and> attached env Audio_mp3 audio_path audio
        \<and> pdf_path = Some f \<and> f \<noteq> [] \<and> open_rb env f = Inl e \<longrightarrow>
        send_email_with_attachments env subject body audio_path pdf_path
          = (Inr False, [St_error ''Email Error: '' e]))
   \<and> (getenv env ''EMAIL_RECEIVERS'' = Some rs \<and> getenv env ''EMAIL_PORT'' = Some ps
        \<and> py_int env ps = Some port \<and> attached env Audio_mp3 audio_path audio
        \<and> attached env Application_pdf pdf_path pdf
        \<and> (getenv env ''EMAIL_HOST'' = None \<or> getenv env ''EMAIL_HOST'' = Some []) \<longrightarrow>
        send_email_with_attachments env subject body audio_path pdf_path
          = (Inr False, [St_error ''Email Error: '' (Failure ''please run connect() first'')]))
   \<and> (getenv env ''EMAIL_RECEIVERS'' = Some rs \<and> getenv env ''EMAIL_PORT'' = Some ps
        \<and> py_int env ps = Some port \<and> attached env Audio_mp3 audio_path audio
        \<and> attached env Application_pdf pdf_path pdf
        \<and> getenv env ''EMAIL_HOST'' = Some h \<and> h \<noteq> [] \<longrightarrow>
        send_email_with_attachments env subject body audio_path pdf_path =
          (case first_failure
                  [smtp_connect env (Some h) port, smtp_quit env, smtp_starttls env,
                   smtp_login env (getenv env ''EMAIL_USERNAME'') (getenv env ''EMAIL_PASSWORD''),
                   smtp_sendmail env (getenv env ''EMAIL_USERNAME'') (split_on CHR '','' rs)
                     \<lparr>msg_from = getenv env ''EMAIL_USERNAME'',
                      msg_to = join '', '' (split_on CHR '','' rs),
                      msg_subject = subject, msg_body = body, msg_parts = audio @ pdf\<rparr>] of
             None \<Rightarrow> (Inr True, [])
           | Some e \<Rightarrow> (Inr False, [St_error ''Email Error: '' e])))
   \<and> (send_email_with_pdf env to_email title text_body report_path = (Inr True, [])
      \<or> (\<exists>e. send_email_with_pdf env to_email title text_body report_path
                = (Inr False, [St_error ''Email Error: '' e])))
   \<and> (getenv env ''EMAIL_PORT'' = None \<longrightarrow>
        send_email_with_pdf env to_email title text_body report_path
          = (Inr False, [St_error ''Email Error: '' (TypeError ''int'')]))
   \<and> (getenv env ''EMAIL_PORT'' = Some ps \<and> py_int env ps = None \<longrightarrow>
        send_email_with_pdf env to_email title text_body report_path
          = (Inr False, [St_error ''Email Error: '' (ValueError ps)]))
   \<and> (getenv env ''EMAIL_PORT'' = Some ps \<and> py_int env ps = Some port
        \<and> open_rb env report_path = Inl e \<longrightarrow>
        send_email_with_pdf env to_email title text_body report_path
          = (Inr False, [St_error ''Email Error: '' e]))
   \<and> (getenv env ''EMAIL_PORT'' = Some ps \<and> py_int env ps = Some port
        \<and> open_rb env report_path = Inr content
        \<and> (getenv env ''EMAIL_HOST'' = None \<or> getenv env ''EMAIL_HOST'' = Some []) \<longrightarrow>
        send_email_with_pdf env to_email title text_body report_path
          = (Inr False, [St_error ''Email Error: '' (Failure ''please run connect() first'')]))
   \<and> (getenv env ''EMAIL_PORT'' = Some ps \<and> py_int env ps = Some port
        \<and> open_rb env report_path = Inr content
        \<and> getenv env ''EMAIL_HOST'' = Some h \<and> h \<noteq> [] \<longrightarrow>
        send_email_with_pdf env to_email title text_body report_path =
          (case first_failure
                  [smtp_connect env (Some h) port, smtp_quit env, smtp_starttls env,
                   smtp_login env (getenv env ''EMAIL_USERNAME'') (getenv env ''EMAIL_PASSWORD''),
                   smtp_sendmail env (getenv env ''EMAIL_USERNAME'') [to_email]
                     \<lparr>msg_from = getenv env ''EMAIL_USERNAME'', msg_to = to_email,
                      msg_subject = title, msg_body = text_body,
                      msg_parts = [Application_pdf (basename env report_path) content]\<rparr>] of
             None \<Rightarrow> (Inr True, [])
           | Some e \<Rightarrow> (Inr False, [St_error ''Email Error: '' e])))"
  (is "?shape1 \<and> ?receivers \<and> ?port1 \<and> ?number1 \<and> ?audio \<and> ?pdf \<and> ?host1 \<and> ?transport1
       \<and> ?shape2 \<and> ?port2 \<and> ?number2 \<and> ?report \<and> ?host2 \<and> ?transport2")
proof -
  have shape1: ?shape1
    by (cases "send_attachments_body env subject body audio_path pdf_path")
       (simp_all add: send_email_with_attachments_def)
  have receivers: ?receivers
    by (simp add: send_email_with_attachments_def send_attachments_body_def)
  have port1: ?port1
    by (simp add: send_email_with_attachments_def send_attachments_body_def)
  have number1: ?number1
    by (simp add: send_email_with_attachments_def send_attachments_body_def)
  have audio: ?audio
    by (auto simp add: send_email_with_attachments_def send_attachments_body_def bind_exc_def
        attach_if_unreadable)
  have pdf: ?pdf
    by (auto simp add: send_email_with_attachments_def send_attachments_body_def bind_exc_def
        attach_if_unreadable attach_if_attached)
  have host1: ?host1
    by (auto simp add: send_email_with_attachments_def send_attachments_body_def bind_exc_def
        attach_if_attached smtp_session_no_host)
  have transport1: ?transport1
    by (auto simp add: send_email_with_attachments_def send_attachments_body_def bind_exc_def
        attach_if_attached smtp_session_first_failure split: option.split)
  have shape2: ?shape2
    by (cases "send_pdf_body env to_email title text_body report_path")
       (simp_all add: send_email_with_pdf_def)
  have port2: ?port2
    by (simp add: send_email_with_pdf_def send_pdf_body_def)
  have number2: ?number2
    by (simp add: send_email_with_pdf_def send_pdf_body_def)
  have report: ?report
    by (auto simp add: send_email_with_pdf_def send_pdf_body_def bind_exc_def)
  have host2: ?host2
    by (auto simp add: send_email_with_pdf_def send_pdf_body_def bind_exc_def
        smtp_session_no_host)
  have transport2: ?transport2
    by (auto simp add: send_email_with_pdf_def send_pdf_body_def bind_exc_def
        smtp_session_first_failure split: option.split)
  show ?thesis
    by (intro conjI)
       (fact shape1 receivers port1 number1 audio pdf host1 transport1
          shape2 port2 number2 report host2 transport2)+
qed

theorem email_failures_witness:
  "(getenv relay_env ''EMAIL_RECEIVERS'' = Some ''a@example.org,b@example.org''
       \<and> getenv relay_env ''EMAIL_PORT'' = Some ''587'' \<and> py_int relay_env ''587'' = Some 587
       \<and> attached relay_env Audio_mp3 (Some ''auto_podcast.mp3'') [Audio_mp3 ''auto_podcast.mp3'' ''ID3'']
       \<and> attached relay_env Application_pdf (Some ''auto_insights.pdf'')
            [Application_pdf ''auto_insights.pdf'' ''%PDF'']
       \<and> getenv relay_env ''EMAIL_HOST'' = Some ''smtp.example.org'' \<and> ''smtp.example.org'' \<noteq> [])
   \<and> send_email_with_attachments relay_env ''Daily AI Insights'' ''Attached.'' (Some ''auto_podcast.mp3'') (Some ''auto_insights.pdf'') = (Inr True, [])
   \<and> (getenv relay_env ''EMAIL_PORT'' = Some ''587'' \<and> py_int relay_env ''587'' = Some 587
       \<and> open_rb relay_env ''final_report.pdf'' = Inr ''%PDF''
       \<and> getenv relay_env ''EMAIL_HOST'' = Some ''smtp.example.org'' \<and> ''smtp.example.org'' \<noteq> [])
   \<and> send_email_with_pdf relay_env ''user@example.org'' ''Report'' ''Attached.'' ''final_report.pdf'' = (Inr True, [])
   \<and> send_email_with_attachments (configured ''EMAIL_PASSWORD'' None) ''Daily AI Insights'' ''Attached.'' (Some ''auto_podcast.mp3'') (Some ''auto_insights.pdf'')
       = (Inr False, [St_error ''Email Error: '' (Failure ''(535, Authentication failed)'')])
   \<and> send_email_with_pdf (configured ''EMAIL_USERNAME'' None) ''user@example.org'' ''Report'' ''Attached.'' ''final_report.pdf''
       = (Inr False, [St_error ''Email Error: '' (Failure ''(535, Authentication failed)'')])
   \<and> send_email_with_attachments (configured ''EMAIL_HOST'' None) ''Daily AI Insights'' ''Attached.'' (Some ''auto_podcast.mp3'') (Some ''auto_insights.pdf'')
       = (Inr False, [St_error ''Email Error: '' (Failure ''please run connect() first'')])
   \<and> send_email_with_attachments (configured ''EMAIL_PORT'' None) ''Daily AI Insights'' ''Attached.'' (Some ''auto_podcast.mp3'') (Some ''auto_insights.pdf'')
       = (Inr False, [St_error ''Email Error: '' (TypeError ''int'')])
   \<and> open_rb relay_env ''missing.mp3'' = Inl (Failure ''No such file or directory'')
   \<and> send_email_with_attachments relay_env ''Daily AI Insights'' ''Attached.'' (Some ''missing.mp3'') (Some ''auto_insights.pdf'')
       = (Inr False, [St_error ''Email Error: '' (Failure ''No such file or directory'')])"
  (is "?given1 \<and> ?sent1 \<and> ?given2 \<and> ?sent2 \<and> ?password \<and> ?user \<and> ?host \<and> ?port \<and> ?absent \<and> ?audio")
proof -
  have given1: ?given1
    by (simp add: relay_env_def attached_def)
  have steps1: "first_failure
        [smtp_connect relay_env (Some ''smtp.example.org'') 587, smtp_quit relay_env, smtp_starttls relay_env,
         smtp_login relay_env (getenv relay_env ''EMAIL_USERNAME'') (getenv relay_env ''EMAIL_PASSWORD''),
         smtp_sendmail relay_env (getenv relay_env ''EMAIL_USERNAME'') (split_on CHR '','' ''a@example.org,b@example.org'')
           \<lparr>msg_from = getenv relay_env ''EMAIL_USERNAME'',
              msg_to = join '', '' (split_on CHR '','' ''a@example.org,b@example.org''),
              msg_subject = ''Daily AI Insights'', msg_body = ''Attached.'',
              msg_parts = [Audio_mp3 ''auto_podcast.mp3'' ''ID3'']
                          @ [Application_pdf ''auto_insights.pdf'' ''%PDF'']\<rparr>] = None"
    by (simp add: relay_env_def)
  have sent1: ?sent1
    using email_failures_become_false
      [where env = relay_env and audio_path = "Some ''auto_podcast.mp3''" and
        subject = "''Daily AI Insights''" and body = "''Attached.''"
      and pdf_path = "Some ''auto_insights.pdf''"
      and rs = "''a@example.org,b@example.org''" and ps = "''587''" and port = 587
      and audio = "[Audio_mp3 ''auto_podcast.mp3'' ''ID3'']"
      and pdf = "[Application_pdf ''auto_insights.pdf'' ''%PDF'']"
      and h = "''smtp.example.org''"
      and to_email = "''user@example.org''" and title = "''Report''"
      and text_body = "''Attached.''" and content = "''%PDF''",
        THEN conjunct2, THEN conjunct2, THEN conjunct2, THEN conjunct2, THEN conjunct2, THEN conjunct2, THEN conjunct2, THEN conjunct1, rule_format, OF given1]
    unfolding steps1 by simp
  have given2: ?given2
    by (simp add: relay_env_def)
  have steps2: "first_failure
        [smtp_connect relay_env (Some ''smtp.example.org'') 587, smtp_quit relay_env, smtp_starttls relay_env,
         smtp_login relay_env (getenv relay_env ''EMAIL_USERNAME'') (getenv relay_env ''EMAIL_PASSWORD''),
         smtp_sendmail relay_env (getenv relay_env ''EMAIL_USERNAME'') [''user@example.org'']
           \<lparr>msg_from = getenv relay_env ''EMAIL_USERNAME'', msg_to = ''user@example.org'',
              msg_subject = ''Report'', msg_body = ''Attached.'',
              msg_parts = [Application_pdf (basename relay_env ''final_report.pdf'') ''%PDF'']\<rparr>] = None"
    by (simp add: relay_env_def)
  have sent2: ?sent2
    using email_failures_become_false
      [where env = relay_env and report_path = "''final_report.pdf''" and
        subject = "''Daily AI Insights''" and body = "''Attached.''"
      and pdf_path = "Some ''auto_insights.pdf''"
      and rs = "''a@example.org,b@example.org''" and ps = "''587''" and port = 587
      and audio = "[Audio_mp3 ''auto_podcast.mp3'' ''ID3'']"
      and pdf = "[Application_pdf ''auto_insights.pdf'' ''%PDF'']"
      and h = "''smtp.example.org''"
      and to_email = "''user@example.org''" and title = "''Report''"
      and text_body = "''Attached.''" and content = "''%PDF''",
        THEN conjunct2, THEN conjunct2, THEN conjunct2, THEN conjunct2, THEN conjunct2, THEN conjunct2, THEN conjunct2, THEN conjunct2, THEN conjunct2, THEN conjunct2, THEN conjunct2, THEN conjunct2, THEN conjunct2, rule_format, OF given2]
    unfolding steps2 by simp
  have given_p: "getenv (configured ''EMAIL_PASSWORD'' None) ''EMAIL_RECEIVERS'' = Some ''a@example.org,b@example.org''
       \<and> getenv (configured ''EMAIL_PASSWORD'' None) ''EMAIL_PORT'' = Some ''587'' \<and> py_int (configured ''EMAIL_PASSWORD'' None) ''587'' = Some 587
       \<and> attached (configured ''EMAIL_PASSWORD'' None) Audio_mp3 (Some ''auto_podcast.mp3'') [Audio_mp3 ''auto_podcast.mp3'' ''ID3'']
       \<and> attached (configured ''EMAIL_PASSWORD'' None) Application_pdf (Some ''auto_insights.pdf'')
            [Application_pdf ''auto_insights.pdf'' ''%PDF'']
       \<and> getenv (configured ''EMAIL_PASSWORD'' None) ''EMAIL_HOST'' = Some ''smtp.example.org'' \<and> ''smtp.example.org'' \<noteq> []"
    by (simp add: relay_env_def configured_def attached_def)
  have steps_p: "first_failure
        [smtp_connect (configured ''EMAIL_PASSWORD'' None) (Some ''smtp.example.org'') 587, smtp_quit (configured ''EMAIL_PASSWORD'' None), smtp_starttls (configured ''EMAIL_PASSWORD'' None),
         smtp_login (configured ''EMAIL_PASSWORD'' None) (getenv (configured ''EMAIL_PASSWORD'' None) ''EMAIL_USERNAME'') (getenv (configured ''EMAIL_PASSWORD'' None) ''EMAIL_PASSWORD''),
         smtp_sendmail (configured ''EMAIL_PASSWORD'' None) (getenv (configured ''EMAIL_PASSWORD'' None) ''EMAIL_USERNAME'') (split_on CHR '','' ''a@example.org,b@example.org'')
           \<lparr>msg_from = getenv (configured ''EMAIL_PASSWORD'' None) ''EMAIL_USERNAME'',
              msg_to = join '', '' (split_on CHR '','' ''a@example.org,b@example.org''),
              msg_subject = ''Daily AI Insights'', msg_body = ''Attached.'',
              msg_parts = [Audio_mp3 ''auto_podcast.mp3'' ''ID3'']
                          @ [Application_pdf ''auto_insights.pdf'' ''%PDF'']\<rparr>]
      = Some (Failure ''(535, Authentication failed)'')"
    by (simp add: relay_env_def configured_def)
  have password: ?password
    using email_failures_become_false
      [where env = "configured ''EMAIL_PASSWORD'' None"
        and audio_path = "Some ''auto_podcast.mp3''" and
        subject = "''Daily AI Insights''" and body = "''Attached.''"
      and pdf_path = "Some ''auto_insights.pdf''"
      and rs = "''a@example.org,b@example.org''" and ps = "''587''" and port = 587
      and audio = "[Audio_mp3 ''auto_podcast.mp3'' ''ID3'']"
      and pdf = "[Application_pdf ''auto_insights.pdf'' ''%PDF'']"
      and h = "''smtp.example.org''"
      and to_email = "''user@example.org''" and title = "''Report''"
      and text_body = "''Attached.''" and content = "''%PDF''",
        THEN conjunct2, THEN conjunct2, THEN conjunct2, THEN conjunct2, THEN conjunct2, THEN conjunct2, THEN conjunct2, THEN conjunct1, rule_format, OF given_p]
    unfolding steps_p by simp
  have given_u: "getenv (configured ''EMAIL_USERNAME'' None) ''EMAIL_PORT'' = Some ''587'' \<and> py_int (configured ''EMAIL_USERNAME'' None) ''587'' = Some 587
       \<and> open_rb (configured ''EMAIL_USERNAME'' None) ''final_report.pdf'' = Inr ''%PDF''
       \<and> getenv (configured ''EMAIL_USERNAME'' None) ''EMAIL_HOST'' = Some ''smtp.example.org'' \<and> ''smtp.example.org'' \<noteq> []"
    by (simp add: relay_env_def configured_def)
  have steps_u: "first_failure
        [smtp_connect (configured ''EMAIL_USERNAME'' None) (Some ''smtp.example.org'') 587, smtp_quit (configured ''EMAIL_USERNAME'' None), smtp_starttls (configured ''EMAIL_USERNAME'' None),
         smtp_login (configured ''EMAIL_USERNAME'' None) (getenv (configured ''EMAIL_USERNAME'' None) ''EMAIL_USERNAME'') (getenv (configured ''EMAIL_USERNAME'' None) ''EMAIL_PASSWORD''),
         smtp_sendmail (configured ''EMAIL_USERNAME'' None) (getenv (configured ''EMAIL_USERNAME'' None) ''EMAIL_USERNAME'') [''user@example.org'']
           \<lparr>msg_from = getenv (configured ''EMAIL_USERNAME'' None) ''EMAIL_USERNAME'', msg_to = ''user@example.org'',
              msg_subject = ''Report'', msg_body = ''Attached.'',
              msg_parts = [Application_pdf (basename (configured ''EMAIL_USERNAME'' None) ''final_report.pdf'') ''%PDF'']\<rparr>]
      = Some (Failure ''(535, Authentication failed)'')"
    by (simp add: relay_env_def configured_def)
  have user: ?user
    using email_failures_become_false
      [where env = "configured ''EMAIL_USERNAME'' None"
        and report_path = "''final_report.pdf''" and
        subject = "''Daily AI Insights''" and body = "''Attached.''"
      and pdf_path = "Some ''auto_insights.pdf''"
      and rs = "''a@example.org,b@example.org''" and ps = "''587''" and port = 587
      and audio = "[Audio_mp3 ''auto_podcast.mp3'' ''ID3'']"
      and pdf = "[Application_pdf ''auto_insights.pdf'' ''%PDF'']"
      and h = "''smtp.example.org''"
      and to_email = "''user@example.org''" and title = "''Report''"
      and text_body = "''Attached.''" and content = "''%PDF''",
        THEN conjunct2, THEN conjunct2, THEN conjunct2, THEN conjunct2, THEN conjunct2, THEN conjunct2, THEN conjunct2, THEN conjunct2, THEN conjunct2, THEN conjunct2, THEN conjunct2, THEN conjunct2, THEN conjunct2, rule_format, OF given_u]
    unfolding steps_u by simp
  have given_h: "getenv (configured ''EMAIL_HOST'' None) ''EMAIL_RECEIVERS'' = Some ''a@example.org,b@example.org''
       \<and> getenv (configured ''EMAIL_HOST'' None) ''EMAIL_PORT'' = Some ''587'' \<and> py_int (configured ''EMAIL_HOST'' None) ''587'' = Some 587
       \<and> attached (configured ''EMAIL_HOST'' None) Audio_mp3 (Some ''auto_podcast.mp3'') [Audio_mp3 ''auto_podcast.mp3'' ''ID3'']
       \<and> attached (configured ''EMAIL_HOST'' None) Application_pdf (Some ''auto_insights.pdf'')
            [Application_pdf ''auto_insights.pdf'' ''%PDF'']
       \<and> (getenv (configured ''EMAIL_HOST'' None) ''EMAIL_HOST'' = None
            \<or> getenv (configured ''EMAIL_HOST'' None) ''EMAIL_HOST'' = Some [])"
    by (simp add: relay_env_def configured_def attached_def)
  have host: ?host
    using email_failures_become_false
      [where env = "configured ''EMAIL_HOST'' None"
        and audio_path = "Some ''auto_podcast.mp3''" and
        subject = "''Daily AI Insights''" and body = "''Attached.''"
      and pdf_path = "Some ''auto_insights.pdf''"
      and rs = "''a@example.org,b@example.org''" and ps = "''587''" and port = 587
      and audio = "[Audio_mp3 ''auto_podcast.mp3'' ''ID3'']"
      and pdf = "[Application_pdf ''auto_insights.pdf'' ''%PDF'']"
      and h = "''smtp.example.org''"
      and to_email = "''user@example.org''" and title = "''Report''"
      and text_body = "''Attached.''" and content = "''%PDF''",
        THEN conjunct2, THEN conjunct2, THEN conjunct2, THEN conjunct2, THEN conjunct2, THEN conjunct2, THEN conjunct1, rule_format, OF given_h]
    by simp
  have given_port: "getenv (configured ''EMAIL_PORT'' None) ''EMAIL_RECEIVERS''
        = Some ''a@example.org,b@example.org''
       \<and> getenv (configured ''EMAIL_PORT'' None) ''EMAIL_PORT'' = None"
    by (simp add: relay_env_def configured_def)
  have port: ?port
    using email_failures_become_false
      [where env = "configured ''EMAIL_PORT'' None"
        and audio_path = "Some ''auto_podcast.mp3''" and
        subject = "''Daily AI Insights''" and body = "''Attached.''"
      and pdf_path = "Some ''auto_insights.pdf''"
      and rs = "''a@example.org,b@example.org''" and ps = "''587''" and port = 587
      and audio = "[Audio_mp3 ''auto_podcast.mp3'' ''ID3'']"
      and pdf = "[Application_pdf ''auto_insights.pdf'' ''%PDF'']"
      and h = "''smtp.example.org''"
      and to_email = "''user@example.org''" and title = "''Report''"
      and text_body = "''Attached.''" and content = "''%PDF''",
        THEN conjunct2, THEN conjunct2, THEN conjunct1, rule_format, OF given_port]
    by simp
  have absent: ?absent
    by (simp add: relay_env_def)
  have given_a: "getenv relay_env ''EMAIL_RECEIVERS'' = Some ''a@example.org,b@example.org''
       \<and> getenv relay_env ''EMAIL_PORT'' = Some ''587'' \<and> py_int relay_env ''587'' = Some 587
       \<and> Some ''missing.mp3'' = Some ''missing.mp3'' \<and> ''missing.mp3'' \<noteq> []
       \<and> open_rb relay_env ''missing.mp3'' = Inl (Failure ''No such file or directory'')"
    by (simp add: relay_env_def)
  have audio: ?audio
    using email_failures_become_false
      [where env = relay_env and audio_path = "Some ''missing.mp3''" and f = "''missing.mp3''"
        and e = "Failure ''No such file or directory''" and
        subject = "''Daily AI Insights''" and body = "''Attached.''"
      and pdf_path = "Some ''auto_insights.pdf''"
      and rs = "''a@example.org,b@example.org''" and ps = "''587''" and port = 587
      and audio = "[Audio_mp3 ''auto_podcast.mp3'' ''ID3'']"
      and pdf = "[Application_pdf ''auto_insights.pdf'' ''%PDF'']"
      and h = "''smtp.example.org''"
      and to_email = "''user@example.org''" and title = "''Report''"
      and text_body = "''Attached.''" and content = "''%PDF''",
        THEN conjunct2, THEN conjunct2, THEN conjunct2, THEN conjunct2, THEN conjunct1, rule_format, OF given_a]
    by simp
  show ?thesis
    by (rule conjI [OF given1 conjI [OF sent1 conjI [OF given2 conjI [OF sent2
          conjI [OF password conjI [OF user conjI [OF host conjI [OF port
          conjI [OF absent audio]]]]]]]]])
qed

end
